theory Spec2Isabelle
  imports Complex_Main
begin

section \<open>JavaScript values\<close>

text \<open>
  The server is written in TypeScript against values of type \<open>any\<close>: tool arguments
  and the parsed bodies of upstream responses.  They are modelled as JSON values, with
  \<open>JUndefined\<close> for the value of a missing property.  \<open>JObj\<close> lists the own
  properties of an object in enumeration order (keys distinct, as \<open>JSON.parse\<close> and
  object literals produce them).  Numbers are the integral ones (counts, seconds, byte
  sizes, page numbers); strings are lists of code units.
\<close>

datatype json =
    JUndefined
  | JNull
  | JBool bool
  | JNum int
  | JStr string
  | JArr "json list"
  | JObj "(string \<times> json) list"

text \<open>An exception carries its \<open>message\<close>: a \<open>TypeError\<close> raised by the runtime, or
  the error with which \<open>vimeoRequest\<close> rejects.\<close>

datatype js_error = TypeError string | RequestError string

fun message :: "js_error \<Rightarrow> string" where
  "message (TypeError m) = m"
| "message (RequestError m) = m"

text \<open>
  A computation stops either because the source throws, or because the source would go on
  with a step that needs floating point: coercing a non-number to a number (\<open>ToNumber\<close>
  parses text), or writing a number of magnitude \<open>10^21\<close> or more with \<open>toFixed\<close>
  (the exponential text of the double).  \<open>Unmodelled\<close> marks the second case, about
  which nothing is proved.
\<close>

datatype fault = Thrown js_error | Unmodelled

type_synonym 'a result = "fault + 'a"

fun bnd :: "'a result \<Rightarrow> ('a \<Rightarrow> 'b result) \<Rightarrow> 'b result" where
  "bnd (Inl e) f = Inl e"
| "bnd (Inr x) f = f x"

fun mapM :: "('a \<Rightarrow> 'b result) \<Rightarrow> 'a list \<Rightarrow> 'b list result" where
  "mapM f [] = Inr []"
| "mapM f (x # xs) = bnd (f x) (\<lambda>y. bnd (mapM f xs) (\<lambda>ys. Inr (y # ys)))"

fun truthy :: "json \<Rightarrow> bool" where
  "truthy JUndefined = False"
| "truthy JNull = False"
| "truthy (JBool b) = b"
| "truthy (JNum n) = (n \<noteq> 0)"
| "truthy (JStr s) = (s \<noteq> [])"
| "truthy (JArr xs) = True"
| "truthy (JObj kvs) = True"

text \<open>\<open>a || b\<close>\<close>

definition js_or :: "json \<Rightarrow> json \<Rightarrow> json" where
  "js_or a b = (if truthy a then a else b)"

fun nullish :: "json \<Rightarrow> bool" where
  "nullish JUndefined = True"
| "nullish JNull = True"
| "nullish v = False"

text \<open>
  Reading a property.  Of the property names this program reads, none is defined on a
  number, a boolean or an array, and on a string only \<open>link\<close> and \<open>search\<close> are
  (prototype functions, which \<open>JSON.stringify\<close> omits as it omits \<open>undefined\<close>).
\<close>

fun field :: "json \<Rightarrow> string \<Rightarrow> json" where
  "field (JObj kvs) k = (case map_of kvs k of None \<Rightarrow> JUndefined | Some v \<Rightarrow> v)"
| "field v k = JUndefined"

definition cannot_read :: "json \<Rightarrow> string \<Rightarrow> js_error" where
  "cannot_read v k = TypeError (''Cannot read properties of ''
     @ (if v = JNull then ''null'' else ''undefined'')
     @ '' (reading '' @ [CHR 0x27] @ k @ [CHR 0x27] @ '')'')"

text \<open>\<open>v.k\<close>\<close>

definition propGet :: "json \<Rightarrow> string \<Rightarrow> json result" where
  "propGet v k = (if nullish v then Inl (Thrown (cannot_read v k)) else Inr (field v k))"

text \<open>\<open>v?.k\<close>\<close>

definition optGet :: "json \<Rightarrow> string \<Rightarrow> json" where
  "optGet v k = (if nullish v then JUndefined else field v k)"

text \<open>\<open>x?.m(...)...\<close>: the rest of the chain is skipped when \<open>x\<close> is null or
  undefined.\<close>

definition opt_chain :: "json \<Rightarrow> (json \<Rightarrow> json result) \<Rightarrow> json result" where
  "opt_chain x f = (if nullish x then Inr JUndefined else f x)"

text \<open>Calling a member that the value does not have.  The message names the member; the
  engine's text names the receiver as well.\<close>

definition not_a_function :: "string \<Rightarrow> js_error" where
  "not_a_function m = TypeError (m @ '' is not a function'')"

subsection \<open>Strings and arrays\<close>

text \<open>\<open>s.split(sep)\<close> for a separator of one code unit.\<close>

fun split_str :: "char \<Rightarrow> string \<Rightarrow> string list" where
  "split_str sep [] = [[]]"
| "split_str sep (c # cs) =
     (if c = sep then [] # split_str sep cs
      else (case split_str sep cs of [] \<Rightarrow> [[c]] | x # xs \<Rightarrow> (c # x) # xs))"

fun js_split :: "json \<Rightarrow> char \<Rightarrow> json list result" where
  "js_split (JStr s) sep = Inr (map JStr (split_str sep s))"
| "js_split JUndefined sep = Inl (Thrown (cannot_read JUndefined ''split''))"
| "js_split JNull sep = Inl (Thrown (cannot_read JNull ''split''))"
| "js_split v sep = Inl (Thrown (not_a_function ''split''))"

text \<open>\<open>xs.pop()\<close> and \<open>xs[0]\<close>\<close>

definition js_pop :: "json list \<Rightarrow> json" where
  "js_pop xs = (if xs = [] then JUndefined else last xs)"

definition js_first :: "json list \<Rightarrow> json" where
  "js_first xs = (case xs of [] \<Rightarrow> JUndefined | x # _ \<Rightarrow> x)"

text \<open>\<open>x.substring(0, n)\<close>\<close>

fun js_substring0 :: "json \<Rightarrow> nat \<Rightarrow> json result" where
  "js_substring0 (JStr s) n = Inr (JStr (take n s))"
| "js_substring0 JUndefined n = Inl (Thrown (cannot_read JUndefined ''substring''))"
| "js_substring0 JNull n = Inl (Thrown (cannot_read JNull ''substring''))"
| "js_substring0 v n = Inl (Thrown (not_a_function ''substring''))"

primrec includes_str :: "string \<Rightarrow> string \<Rightarrow> bool" where
  "includes_str [] t = (t = [])"
| "includes_str (c # cs) t = (take (length t) (c # cs) = t \<or> includes_str cs t)"

text \<open>\<open>x.includes(t)\<close>: text search on a string, membership on an array.\<close>

fun js_includes :: "json \<Rightarrow> string \<Rightarrow> json result" where
  "js_includes (JStr s) t = Inr (JBool (includes_str s t))"
| "js_includes (JArr xs) t = Inr (JBool (JStr t \<in> set xs))"
| "js_includes JUndefined t = Inl (Thrown (cannot_read JUndefined ''includes''))"
| "js_includes JNull t = Inl (Thrown (cannot_read JNull ''includes''))"
| "js_includes v t = Inl (Thrown (not_a_function ''includes''))"

text \<open>\<open>x.map(f)\<close>: the elements in order; the first exception of \<open>f\<close> ends it.\<close>

fun js_map :: "json \<Rightarrow> (json \<Rightarrow> json result) \<Rightarrow> json list result" where
  "js_map (JArr xs) f = mapM f xs"
| "js_map JUndefined f = Inl (Thrown (cannot_read JUndefined ''map''))"
| "js_map JNull f = Inl (Thrown (cannot_read JNull ''map''))"
| "js_map v f = Inl (Thrown (not_a_function ''map''))"

subsection \<open>Numbers and text\<close>

fun digits :: "nat \<Rightarrow> string" where
  "digits n = (if n < 10 then [''0123456789'' ! n]
               else digits (n div 10) @ [''0123456789'' ! (n mod 10)])"

declare digits.simps [simp del]

text \<open>\<open>String(n)\<close> for an integral number of magnitude below \<open>10^21\<close>.\<close>

definition show_int :: "int \<Rightarrow> string" where
  "show_int n = (if n < 0 then CHR ''-'' # digits (nat (- n)) else digits (nat n))"

text \<open>\<open>Math.min(x, m)\<close>\<close>

fun Math_min :: "json \<Rightarrow> int \<Rightarrow> int result" where
  "Math_min (JNum n) m = Inr (min n m)"
| "Math_min v m = Inl Unmodelled"

text \<open>
  \<open>String(v)\<close>, as a template literal applies it.  An array joins its elements with
  commas (null and undefined as empty text); an object is \<open>[object Object]\<close>, unless an
  own property \<open>toString\<close> hides the inherited method, where the conversion throws.
\<close>

fun js_toString :: "json \<Rightarrow> string result"
  and js_join :: "json list \<Rightarrow> string result" where
  "js_toString JUndefined = Inr ''undefined''"
| "js_toString JNull = Inr ''null''"
| "js_toString (JBool b) = Inr (if b then ''true'' else ''false'')"
| "js_toString (JNum n) = Inr (show_int n)"
| "js_toString (JStr s) = Inr s"
| "js_toString (JArr xs) = js_join xs"
| "js_toString (JObj kvs) =
     (if ''toString'' \<in> fst ` set kvs
      then Inl (Thrown (TypeError ''Cannot convert object to primitive value''))
      else Inr ''[object Object]'')"
| "js_join [] = Inr []"
| "js_join [x] = (if nullish x then Inr [] else js_toString x)"
| "js_join (x # y # ys) =
     bnd (if nullish x then Inr [] else js_toString x)
       (\<lambda>a. bnd (js_join (y # ys)) (\<lambda>b. Inr (a @ '','' @ b)))"

text \<open>\<open>x.length\<close>\<close>

fun js_length :: "json \<Rightarrow> json" where
  "js_length (JArr xs) = JNum (int (length xs))"
| "js_length (JStr s) = JNum (int (length s))"
| "js_length v = JUndefined"

text \<open>\<open>x / d\<close> for a number \<open>x\<close>: the quotient is exact when \<open>d\<close> is a power of
  two, as it is here.\<close>

fun js_divide :: "json \<Rightarrow> int \<Rightarrow> rat result" where
  "js_divide (JNum n) d = Inr (of_int n / of_int d)"
| "js_divide v d = Inl Unmodelled"

text \<open>
  \<open>x.toFixed(f)\<close>, after its definition in ECMAScript.  For \<open>|x| \<ge> 10^21\<close> the result
  is the sign and \<open>String(|x|)\<close>, the shortest exponential text that reads back as the
  double: that case is not modelled.  Below \<open>10^21\<close> it is the sign, then the digits of
  the integer \<open>n\<close> for which \<open>n / 10^f - |x|\<close> is closest to zero (the larger one of
  two), padded with zeros to \<open>f + 1\<close> digits, with a point before the last \<open>f\<close>.
\<close>

definition toFixed :: "nat \<Rightarrow> rat \<Rightarrow> string result" where
  "toFixed f x =
     (if 10 ^ 21 \<le> \<bar>x\<bar> then Inl Unmodelled
      else
        (let s = (if x < 0 then ''-'' else []);
             n = nat \<lfloor>\<bar>x\<bar> * 10 ^ f + 1 / 2\<rfloor>;
             m = digits n;
             k = length m;
             z = (if k \<le> f then replicate (f + 1 - k) (CHR ''0'') @ m else m);
             k' = length z
         in Inr (s @ (if f \<noteq> 0 then take (k' - f) z @ ''.'' @ drop (k' - f) z else z))))"

subsection \<open>encodeURIComponent\<close>

definition hex_upper :: "nat \<Rightarrow> char" where
  "hex_upper d = ''0123456789ABCDEF'' ! d"

definition percent :: "nat \<Rightarrow> string" where
  "percent b = [CHR ''%'', hex_upper (b div 16), hex_upper (b mod 16)]"

definition unreserved :: "char \<Rightarrow> bool" where
  "unreserved c = (c \<in> set (''ABCDEFGHIJKLMNOPQRSTUVWXYZabcdefghijklmnopqrstuvwxyz0123456789-_.!~*()''
                              @ [CHR 0x27]))"

text \<open>A code unit below 128 is one byte of UTF-8, one from 128 to 255 is two.\<close>

definition encode_unit :: "char \<Rightarrow> string" where
  "encode_unit c =
     (let n = (of_char c :: nat)
      in if unreserved c then [c]
         else if n < 128 then percent n
         else percent (192 + n div 64) @ percent (128 + n mod 64))"

definition encodeURIComponent :: "json \<Rightarrow> string result" where
  "encodeURIComponent x = bnd (js_toString x) (\<lambda>s. Inr (concat (map encode_unit s)))"

subsection \<open>JSON.stringify\<close>

definition hex_lower :: "nat \<Rightarrow> char" where
  "hex_lower d = ''0123456789abcdef'' ! d"

definition quote_unit :: "char \<Rightarrow> string" where
  "quote_unit c =
     (let n = (of_char c :: nat)
      in if n = 8 then [CHR 0x5C, CHR ''b'']
         else if n = 9 then [CHR 0x5C, CHR ''t'']
         else if n = 10 then [CHR 0x5C, CHR ''n'']
         else if n = 12 then [CHR 0x5C, CHR ''f'']
         else if n = 13 then [CHR 0x5C, CHR ''r'']
         else if n = 34 then [CHR 0x5C, CHR 0x22]
         else if n = 92 then [CHR 0x5C, CHR 0x5C]
         else if n < 32 then [CHR 0x5C, CHR ''u'', CHR ''0'', CHR ''0'',
                              hex_lower (n div 16), hex_lower (n mod 16)]
         else [c])"

definition quoteJSON :: "string \<Rightarrow> string" where
  "quoteJSON s = [CHR 0x22] @ concat (map quote_unit s) @ [CHR 0x22]"

fun join_str :: "string \<Rightarrow> string list \<Rightarrow> string" where
  "join_str sep [] = []"
| "join_str sep [x] = x"
| "join_str sep (x # y # ys) = x @ sep @ join_str sep (y # ys)"

text \<open>
  \<open>serialize gap indent v\<close> follows SerializeJSONProperty: \<open>gap\<close> is empty for
  \<open>JSON.stringify(v)\<close> and two spaces for \<open>JSON.stringify(v, null, 2)\<close>.  A property
  whose value is undefined is left out of an object; an undefined element of an array is
  written \<open>null\<close>.
\<close>

fun serialize :: "string \<Rightarrow> string \<Rightarrow> json \<Rightarrow> string" where
  "serialize gap ind JUndefined = ''null''"
| "serialize gap ind JNull = ''null''"
| "serialize gap ind (JBool b) = (if b then ''true'' else ''false'')"
| "serialize gap ind (JNum n) = show_int n"
| "serialize gap ind (JStr s) = quoteJSON s"
| "serialize gap ind (JArr xs) =
     (let parts = map (serialize gap (ind @ gap)) xs
      in if parts = [] then ''[]''
         else if gap = [] then ''['' @ join_str '','' parts @ '']''
         else ''['' @ [CHR 0x0A] @ ind @ gap @ join_str ('','' @ [CHR 0x0A] @ ind @ gap) parts
              @ [CHR 0x0A] @ ind @ '']'')"
| "serialize gap ind (JObj kvs) =
     (let parts = map (\<lambda>(k, v). quoteJSON k @ '':'' @ (if gap = [] then [] else '' '')
                                  @ serialize gap (ind @ gap) v)
                      (filter (\<lambda>(k, v). v \<noteq> JUndefined) kvs)
      in if parts = [] then ''{}''
         else if gap = [] then ''{'' @ join_str '','' parts @ ''}''
         else ''{'' @ [CHR 0x0A] @ ind @ gap @ join_str ('','' @ [CHR 0x0A] @ ind @ gap) parts
              @ [CHR 0x0A] @ ind @ ''}'')"

text \<open>\<open>JSON.stringify(v)\<close> and \<open>JSON.stringify(v, null, 2)\<close>; every call in the
  program passes an object literal.\<close>

definition JSON_stringify :: "json \<Rightarrow> string" where
  "JSON_stringify v = serialize [] [] v"

definition JSON_stringify2 :: "json \<Rightarrow> string" where
  "JSON_stringify2 v = serialize ''  '' [] v"

section \<open>The Vimeo API helper\<close>

text \<open>
  \<open>vimeoRequest(endpoint, method, body)\<close> resolves with the status and the parsed body
  of the response, or rejects on a transport error.  What the remote service answers is a
  parameter: \<open>up\<close> maps the requests sent before and the request sent now to the
  outcome.  The effect of a request is its entry in the list of requests sent.
\<close>

record request =
  endpoint :: string
  meth :: string
  body :: json

record VimeoResponse =
  status :: int
  data :: json

type_synonym upstream = "request list \<Rightarrow> request \<Rightarrow> js_error + VimeoResponse"

type_synonym 'a io = "request list \<Rightarrow> 'a result \<times> request list"

definition io_return :: "'a \<Rightarrow> 'a io" where
  "io_return x tr = (Inr x, tr)"

definition io_lift :: "'a result \<Rightarrow> 'a io" where
  "io_lift r tr = (r, tr)"

definition io_bind :: "'a io \<Rightarrow> ('a \<Rightarrow> 'b io) \<Rightarrow> 'b io" where
  "io_bind m f tr = (case m tr of (Inl e, tr') \<Rightarrow> (Inl e, tr') | (Inr x, tr') \<Rightarrow> f x tr')"

definition vimeoRequest :: "upstream \<Rightarrow> string \<Rightarrow> string \<Rightarrow> json \<Rightarrow> VimeoResponse io" where
  "vimeoRequest up ep m b tr =
     (let rq = \<lparr>endpoint = ep, meth = m, body = b\<rparr>
      in (case up tr rq of Inl e \<Rightarrow> Inl (Thrown e) | Inr res \<Rightarrow> Inr res, tr @ [rq]))"

text \<open>The payload written to the connection: \<open>if (body) req.write(JSON.stringify(body))\<close>.\<close>

definition written :: "request \<Rightarrow> string option" where
  "written rq = (if truthy (body rq) then Some (JSON_stringify (body rq)) else None)"

section \<open>Minimal data extractors\<close>

text \<open>\<open>x.split(sep).pop()\<close> and \<open>x.split(sep)[0]\<close>\<close>

definition split_pop :: "char \<Rightarrow> json \<Rightarrow> json result" where
  "split_pop sep x = bnd (js_split x sep) (\<lambda>parts. Inr (js_pop parts))"

definition split_first :: "char \<Rightarrow> json \<Rightarrow> json result" where
  "split_first sep x = bnd (js_split x sep) (\<lambda>parts. Inr (js_first parts))"

definition extractVideoMinimal :: "json \<Rightarrow> json result" where
  "extractVideoMinimal video =
     bnd (propGet video ''uri'') (\<lambda>u. let uri = js_or u (JStr []) in
     bnd (split_pop (CHR ''/'') uri) (\<lambda>p. let ident = js_or p (JStr []) in
     bnd (propGet video ''name'') (\<lambda>nm.
     bnd (propGet video ''duration'') (\<lambda>dur.
     bnd (propGet video ''created_time'') (\<lambda>ct.
     bnd (opt_chain ct (split_first (CHR ''T''))) (\<lambda>created.
     bnd (propGet video ''parent_folder'') (\<lambda>pf.
     Inr (JObj [(''id'', ident),
                (''name'', js_or nm (JStr ''Untitled'')),
                (''duration'', js_or dur (JNum 0)),
                (''created'', js_or created (JStr [])),
                (''folder'', optGet pf ''name'')]))))))))"

definition extractFolderMinimal :: "json \<Rightarrow> json result" where
  "extractFolderMinimal folder =
     bnd (propGet folder ''uri'') (\<lambda>u. let uri = js_or u (JStr []) in
     bnd (split_pop (CHR ''/'') uri) (\<lambda>p. let ident = js_or p (JStr []) in
     bnd (propGet folder ''name'') (\<lambda>nm.
     bnd (propGet folder ''metadata'') (\<lambda>md.
     Inr (JObj [(''id'', ident),
                (''name'', js_or nm (JStr ''Untitled'')),
                (''video_count'',
                   js_or (optGet (optGet (optGet md ''connections'') ''videos'') ''total'')
                     (JNum 0))])))))"

section \<open>Tool handlers\<close>

subsection \<open>list_folders\<close>

text \<open>The \<open>while (hasMore)\<close> loop; a run that never leaves it has the value \<open>None\<close>.\<close>

partial_function (option) listFolders_loop ::
  "upstream \<Rightarrow> json list \<Rightarrow> int \<Rightarrow> request list \<Rightarrow> (json list result \<times> request list) option"
where
  "listFolders_loop up folders page tr =
     (case vimeoRequest up (''/me/projects?per_page=100&page='' @ show_int page) ''GET''
             JUndefined tr of
        (Inl e, tr') \<Rightarrow> Some (Inl e, tr')
      | (Inr res, tr') \<Rightarrow>
          if status res = 200 then
            (case propGet (data res) ''data'' of
               Inl e \<Rightarrow> Some (Inl e, tr')
             | Inr d \<Rightarrow>
                 if truthy d then
                   (case js_map d extractFolderMinimal of
                      Inl e \<Rightarrow> Some (Inl e, tr')
                    | Inr fs \<Rightarrow>
                        if js_length d = JNum 100
                        then listFolders_loop up (folders @ fs) (page + 1) tr'
                        else Some (Inr (folders @ fs), tr'))
                 else Some (Inr folders, tr'))
          else Some (Inr folders, tr'))"

declare listFolders_loop.simps [code]

definition handleListFolders :: "upstream \<Rightarrow> request list \<Rightarrow> (string result \<times> request list) option"
where
  "handleListFolders up tr =
     (case listFolders_loop up [] 1 tr of
        None \<Rightarrow> None
      | Some (Inl e, tr') \<Rightarrow> Some (Inl e, tr')
      | Some (Inr folders, tr') \<Rightarrow>
          Some (Inr (JSON_stringify2
                  (JObj [(''total'', JNum (int (length folders))), (''folders'', JArr folders)])),
                tr'))"

subsection \<open>list_videos\<close>

definition map_array :: "(json \<Rightarrow> json result) \<Rightarrow> json \<Rightarrow> json result" where
  "map_array f a = bnd (js_map a f) (\<lambda>ys. Inr (JArr ys))"

definition handleListVideos :: "upstream \<Rightarrow> json \<Rightarrow> string io" where
  "handleListVideos up args =
     io_bind (io_lift (propGet args ''page'')) (\<lambda>pg. let page = js_or pg (JNum 1) in
     io_bind (io_lift (propGet args ''per_page'')) (\<lambda>pp.
     io_bind (io_lift (Math_min (js_or pp (JNum 50)) 100)) (\<lambda>perPage.
     io_bind (io_lift (js_toString page)) (\<lambda>page_s.
     io_bind (io_lift (propGet args ''folder_id'')) (\<lambda>fid.
     io_bind (io_lift (if truthy fid
        then bnd (js_toString fid) (\<lambda>fid_s. Inr (''/me/projects/'' @ fid_s
               @ ''/videos?per_page='' @ show_int perPage @ ''&page='' @ page_s
               @ ''&fields=uri,name,duration,created_time''))
        else Inr (''/me/videos?per_page='' @ show_int perPage @ ''&page='' @ page_s
               @ ''&fields=uri,name,duration,created_time,parent_folder''))) (\<lambda>ep.
     io_bind (io_lift (propGet args ''search'')) (\<lambda>search.
     io_bind (io_lift (if truthy search
        then bnd (encodeURIComponent search) (\<lambda>q. Inr (ep @ ''&query='' @ q))
        else Inr ep)) (\<lambda>ep'.
     io_bind (vimeoRequest up ep' ''GET'' JUndefined) (\<lambda>res.
     if status res \<noteq> 200
     then io_return (JSON_stringify
            (JObj [(''error'', JStr ''Failed to fetch videos''), (''status'', JNum (status res))]))
     else
       io_bind (io_lift (propGet (data res) ''data'')) (\<lambda>d.
       io_bind (io_lift (opt_chain d (map_array extractVideoMinimal))) (\<lambda>mapped.
       let videos = js_or mapped (JArr []) in
       io_bind (io_lift (propGet (data res) ''total'')) (\<lambda>t.
       let total = js_or t (js_length videos) in
       io_return (JSON_stringify2
         (JObj [(''total'', total), (''page'', page), (''per_page'', JNum perPage),
                (''videos'', videos)]))))))))))))))"

subsection \<open>get_video\<close>

definition handleGetVideo :: "upstream \<Rightarrow> json \<Rightarrow> string io" where
  "handleGetVideo up args =
     io_bind (io_lift (propGet args ''video_id'')) (\<lambda>vid.
     io_bind (io_lift (js_toString vid)) (\<lambda>vid_s.
     io_bind (vimeoRequest up (''/videos/'' @ vid_s
        @ ''?fields=uri,name,description,duration,created_time,parent_folder,tags,privacy,link'')
        ''GET'' JUndefined) (\<lambda>res.
     if status res \<noteq> 200
     then io_return (JSON_stringify
            (JObj [(''error'', JStr ''Video not found''), (''status'', JNum (status res))]))
     else let v = data res in
       io_lift (
         bnd (propGet v ''name'') (\<lambda>nm.
         bnd (propGet v ''description'') (\<lambda>desc.
         bnd (opt_chain desc (\<lambda>x. js_substring0 x 500)) (\<lambda>cut.
         bnd (propGet v ''duration'') (\<lambda>dur.
         bnd (propGet v ''created_time'') (\<lambda>ct.
         bnd (opt_chain ct (split_first (CHR ''T''))) (\<lambda>created.
         bnd (propGet v ''parent_folder'') (\<lambda>pf.
         bnd (propGet v ''tags'') (\<lambda>tg.
         bnd (opt_chain tg (map_array (\<lambda>t. propGet t ''name''))) (\<lambda>names.
         bnd (propGet v ''privacy'') (\<lambda>pr.
         bnd (propGet v ''link'') (\<lambda>lk.
         Inr (JSON_stringify2
           (JObj [(''id'', vid),
                  (''name'', nm),
                  (''description'', js_or cut (JStr [])),
                  (''duration'', dur),
                  (''created'', created),
                  (''folder'', optGet pf ''name''),
                  (''tags'', js_or names (JArr [])),
                  (''privacy'', optGet pr ''view''),
                  (''link'', lk)])))))))))))))))))"

subsection \<open>get_folder_videos\<close>

text \<open>The record built inline for each video of the folder.\<close>

definition folderVideoItem :: "json \<Rightarrow> json result" where
  "folderVideoItem v =
     bnd (propGet v ''uri'') (\<lambda>u.
     bnd (opt_chain u (split_pop (CHR ''/''))) (\<lambda>ident.
     bnd (propGet v ''name'') (\<lambda>nm.
     bnd (propGet v ''duration'') (\<lambda>dur.
     bnd (propGet v ''created_time'') (\<lambda>ct.
     bnd (opt_chain ct (split_first (CHR ''T''))) (\<lambda>created.
     Inr (JObj [(''id'', ident), (''name'', nm), (''duration'', dur),
                (''created'', created)])))))))"

definition handleGetFolderVideos :: "upstream \<Rightarrow> json \<Rightarrow> string io" where
  "handleGetFolderVideos up args =
     io_bind (io_lift (propGet args ''page'')) (\<lambda>pg. let page = js_or pg (JNum 1) in
     io_bind (io_lift (propGet args ''per_page'')) (\<lambda>pp.
     io_bind (io_lift (Math_min (js_or pp (JNum 50)) 100)) (\<lambda>perPage.
     io_bind (io_lift (propGet args ''folder_id'')) (\<lambda>fid.
     io_bind (io_lift (js_toString fid)) (\<lambda>fid_s.
     io_bind (vimeoRequest up (''/me/projects/'' @ fid_s
        @ ''?fields=name,metadata.connections.videos.total'') ''GET'' JUndefined) (\<lambda>folderRes.
     io_bind (io_lift (propGet (data folderRes) ''name'')) (\<lambda>fnm.
     let folderName = js_or fnm (JStr ''Unknown'') in
     io_bind (io_lift (propGet (data folderRes) ''metadata'')) (\<lambda>md.
     let totalVideos = js_or (optGet (optGet (optGet md ''connections'') ''videos'') ''total'')
                         (JNum 0) in
     io_bind (io_lift (js_toString page)) (\<lambda>page_s.
     io_bind (vimeoRequest up (''/me/projects/'' @ fid_s @ ''/videos?per_page=''
        @ show_int perPage @ ''&page='' @ page_s @ ''&fields=uri,name,duration,created_time'')
        ''GET'' JUndefined) (\<lambda>res.
     if status res \<noteq> 200
     then io_return (JSON_stringify
            (JObj [(''error'', JStr ''Failed to fetch folder videos''),
                   (''status'', JNum (status res))]))
     else
       io_bind (io_lift (propGet (data res) ''data'')) (\<lambda>d.
       io_bind (io_lift (opt_chain d (map_array folderVideoItem))) (\<lambda>mapped.
       let videos = js_or mapped (JArr []) in
       io_return (JSON_stringify2
         (JObj [(''folder'', folderName), (''total'', totalVideos), (''page'', page),
                (''per_page'', JNum perPage), (''videos'', videos)]))))))))))))))"

subsection \<open>move_video\<close>

definition handleMoveVideo :: "upstream \<Rightarrow> json \<Rightarrow> string io" where
  "handleMoveVideo up args =
     io_bind (io_lift (propGet args ''folder_id'')) (\<lambda>fid.
     io_bind (io_lift (js_toString fid)) (\<lambda>fid_s.
     io_bind (io_lift (propGet args ''video_id'')) (\<lambda>vid.
     io_bind (io_lift (js_toString vid)) (\<lambda>vid_s.
     io_bind (vimeoRequest up (''/me/projects/'' @ fid_s @ ''/items'') ''POST''
        (JObj [(''items'', JArr [JObj [(''uri'', JStr (''/videos/'' @ vid_s))]])])) (\<lambda>res.
     let success = (status res = 204 \<or> status res = 200 \<or> status res = 201) in
     io_return (JSON_stringify
       (JObj [(''success'', JBool success), (''video_id'', vid), (''folder_id'', fid)])))))))"

subsection \<open>create_folder\<close>

definition handleCreateFolder :: "upstream \<Rightarrow> json \<Rightarrow> string io" where
  "handleCreateFolder up args =
     io_bind (io_lift (propGet args ''name'')) (\<lambda>nm.
     io_bind (vimeoRequest up ''/me/projects'' ''POST'' (JObj [(''name'', nm)])) (\<lambda>res.
     if status res = 201 then
       io_bind (io_lift (propGet (data res) ''uri'')) (\<lambda>u.
       io_bind (io_lift (opt_chain u (split_pop (CHR ''/'')))) (\<lambda>ident.
       io_return (JSON_stringify
         (JObj [(''success'', JBool True), (''id'', ident), (''name'', nm)]))))
     else
       io_bind (io_lift (if status res = 400
          then bnd (propGet (data res) ''error'')
                 (\<lambda>e. opt_chain e (\<lambda>x. js_includes x ''already exists''))
          else Inr (JBool False))) (\<lambda>exists.
       if truthy exists
       then io_return (JSON_stringify
              (JObj [(''success'', JBool False), (''error'', JStr ''Folder already exists'')]))
       else
         io_bind (io_lift (propGet (data res) ''error'')) (\<lambda>e.
         io_return (JSON_stringify
           (JObj [(''success'', JBool False),
                  (''error'', js_or e (JStr ''Failed to create folder''))]))))))"

subsection \<open>update_video\<close>

text \<open>\<open>if (x) body.k = x\<close>\<close>

definition set_if_truthy :: "string \<Rightarrow> json \<Rightarrow> (string \<times> json) list \<Rightarrow> (string \<times> json) list"
where
  "set_if_truthy k x b = (if truthy x then b @ [(k, x)] else b)"

definition handleUpdateVideo :: "upstream \<Rightarrow> json \<Rightarrow> string io" where
  "handleUpdateVideo up args =
     io_bind (io_lift (propGet args ''name'')) (\<lambda>nm.
     io_bind (io_lift (propGet args ''description'')) (\<lambda>desc.
     io_bind (io_lift (propGet args ''tags'')) (\<lambda>tags.
     let b = set_if_truthy ''tags'' tags
               (set_if_truthy ''description'' desc (set_if_truthy ''name'' nm [])) in
     io_bind (io_lift (propGet args ''video_id'')) (\<lambda>vid.
     io_bind (io_lift (js_toString vid)) (\<lambda>vid_s.
     io_bind (vimeoRequest up (''/videos/'' @ vid_s) ''PATCH'' (JObj b)) (\<lambda>res.
     let success = (status res = 200) in
     io_return (JSON_stringify (JObj [(''success'', JBool success), (''video_id'', vid)]))))))))"

subsection \<open>search_videos\<close>

definition handleSearchVideos :: "upstream \<Rightarrow> json \<Rightarrow> string io" where
  "handleSearchVideos up args =
     io_bind (io_lift (propGet args ''page'')) (\<lambda>pg. let page = js_or pg (JNum 1) in
     io_bind (io_lift (propGet args ''per_page'')) (\<lambda>pp.
     io_bind (io_lift (Math_min (js_or pp (JNum 25)) 100)) (\<lambda>perPage.
     io_bind (io_lift (propGet args ''query'')) (\<lambda>query.
     io_bind (io_lift (encodeURIComponent query)) (\<lambda>q.
     io_bind (io_lift (js_toString page)) (\<lambda>page_s.
     io_bind (vimeoRequest up (''/me/videos?query='' @ q @ ''&per_page='' @ show_int perPage
        @ ''&page='' @ page_s @ ''&fields=uri,name,duration,created_time,parent_folder'')
        ''GET'' JUndefined) (\<lambda>res.
     if status res \<noteq> 200
     then io_return (JSON_stringify
            (JObj [(''error'', JStr ''Search failed''), (''status'', JNum (status res))]))
     else
       io_bind (io_lift (propGet (data res) ''data'')) (\<lambda>d.
       io_bind (io_lift (opt_chain d (map_array extractVideoMinimal))) (\<lambda>mapped.
       let videos = js_or mapped (JArr []) in
       io_bind (io_lift (propGet (data res) ''total'')) (\<lambda>t.
       let total = js_or t (js_length videos) in
       io_return (JSON_stringify2
         (JObj [(''query'', query), (''total'', total), (''page'', page),
                (''per_page'', JNum perPage), (''videos'', videos)]))))))))))))"

subsection \<open>get_stats\<close>

definition handleGetStats :: "upstream \<Rightarrow> string io" where
  "handleGetStats up =
     io_bind (vimeoRequest up ''/me/videos?per_page=1&fields=uri'' ''GET'' JUndefined) (\<lambda>videoRes.
     io_bind (io_lift (propGet (data videoRes) ''total'')) (\<lambda>tv.
     let totalVideos = js_or tv (JNum 0) in
     io_bind (vimeoRequest up ''/me/projects?per_page=1'' ''GET'' JUndefined) (\<lambda>folderRes.
     io_bind (io_lift (propGet (data folderRes) ''total'')) (\<lambda>tf.
     let totalFolders = js_or tf (JNum 0) in
     io_bind (vimeoRequest up ''/me?fields=upload_quota'' ''GET'' JUndefined) (\<lambda>userRes.
     io_bind (io_lift (propGet (data userRes) ''upload_quota'')) (\<lambda>quota.
     let used = js_or (optGet (optGet quota ''space'') ''used'') (JNum 0);
         max = js_or (optGet (optGet quota ''space'') ''max'') (JNum 0) in
     io_bind (io_lift (js_divide used 1073741824)) (\<lambda>used_gb.
     io_bind (io_lift (toFixed 2 used_gb)) (\<lambda>storage_used_gb.
     io_bind (io_lift (js_divide max 1073741824)) (\<lambda>max_gb.
     io_bind (io_lift (toFixed 2 max_gb)) (\<lambda>storage_max_gb.
     io_return (JSON_stringify2
       (JObj [(''total_videos'', totalVideos),
              (''total_folders'', totalFolders),
              (''storage_used_gb'', JStr storage_used_gb),
              (''storage_max_gb'', JStr storage_max_gb)]))))))))))))"

section \<open>The MCP server\<close>

text \<open>The names of the tools that \<open>TOOLS\<close> declares.\<close>

definition tool_names :: "string list" where
  "tool_names = [''list_folders'', ''list_videos'', ''get_video'', ''get_folder_videos'',
                 ''move_video'', ''create_folder'', ''update_video'', ''search_videos'',
                 ''get_stats'']"

text \<open>The result of a call: \<open>{content: [{type: "text", text}]}\<close>.\<close>

datatype content_item = TextContent string

datatype call_result = CallResult "content_item list"

text \<open>The \<open>switch\<close> on the tool name.\<close>

definition call_handler ::
  "upstream \<Rightarrow> string \<Rightarrow> json \<Rightarrow> request list \<Rightarrow> (string result \<times> request list) option"
where
  "call_handler up name args tr =
     (if name = ''list_folders'' then handleListFolders up tr
      else if name = ''list_videos'' then Some (handleListVideos up (js_or args (JObj [])) tr)
      else if name = ''get_video'' then Some (handleGetVideo up args tr)
      else if name = ''get_folder_videos'' then Some (handleGetFolderVideos up args tr)
      else if name = ''move_video'' then Some (handleMoveVideo up args tr)
      else if name = ''create_folder'' then Some (handleCreateFolder up args tr)
      else if name = ''update_video'' then Some (handleUpdateVideo up args tr)
      else if name = ''search_videos'' then Some (handleSearchVideos up args tr)
      else if name = ''get_stats'' then Some (handleGetStats up tr)
      else Some (Inr (JSON_stringify (JObj [(''error'', JStr (''Unknown tool: '' @ name))])), tr))"

text \<open>The request handler: the \<open>switch\<close> inside \<open>try\<close>, and the \<open>catch\<close>.\<close>

definition callTool ::
  "upstream \<Rightarrow> string \<Rightarrow> json \<Rightarrow> request list \<Rightarrow> (call_result result \<times> request list) option"
where
  "callTool up name args tr =
     (case call_handler up name args tr of
        None \<Rightarrow> None
      | Some (Inr result, tr') \<Rightarrow> Some (Inr (CallResult [TextContent result]), tr')
      | Some (Inl (Thrown error), tr') \<Rightarrow>
          Some (Inr (CallResult [TextContent
                  (JSON_stringify (JObj [(''error'', JStr (message error))]))]), tr')
      | Some (Inl Unmodelled, tr') \<Rightarrow> Some (Inl Unmodelled, tr'))"

section \<open>Notions of the specification\<close>

text \<open>The trailing path segment of a URI: what follows its last slash.\<close>

definition trailing_segment :: "string \<Rightarrow> string" where
  "trailing_segment s = rev (takeWhile (\<lambda>c. c \<noteq> CHR ''/'') (rev s))"

fun is_text :: "json \<Rightarrow> bool" where
  "is_text (JStr s) = True"
| "is_text v = False"

fun text_of :: "json \<Rightarrow> string" where
  "text_of (JStr s) = s"
| "text_of v = []"

text \<open>One text contains another.\<close>

definition contains_text :: "string \<Rightarrow> string \<Rightarrow> bool" where
  "contains_text s t = (\<exists>p q. s = p @ t @ q)"

text \<open>
  The pages of list_folders.  \<open>page_request p\<close> is the fetch of page \<open>p\<close>.  A full
  page answers 200 with an array of exactly 100 folders, which extract to \<open>fs\<close>.  A last
  page either fails (a status other than 200, or a 200 whose body has no folder array) and
  contributes nothing, or answers 200 with an array of another length, which extracts to
  \<open>fs\<close>.
\<close>

definition page_request :: "int \<Rightarrow> request" where
  "page_request p = \<lparr>endpoint = ''/me/projects?per_page=100&page='' @ show_int p,
                     meth = ''GET'', body = JUndefined\<rparr>"

definition full_page :: "js_error + VimeoResponse \<Rightarrow> json list \<Rightarrow> bool" where
  "full_page r fs =
     (case r of
        Inl e \<Rightarrow> False
      | Inr res \<Rightarrow>
          status res = 200 \<and> \<not> nullish (data res) \<and>
          (case field (data res) ''data'' of
             JArr xs \<Rightarrow> length xs = 100 \<and> mapM extractFolderMinimal xs = Inr fs
           | _ \<Rightarrow> False))"

definition last_page :: "js_error + VimeoResponse \<Rightarrow> json list \<Rightarrow> bool" where
  "last_page r fs =
     (case r of
        Inl e \<Rightarrow> False
      | Inr res \<Rightarrow>
          if status res \<noteq> 200 then fs = []
          else \<not> nullish (data res) \<and>
            (case field (data res) ''data'' of
               JArr xs \<Rightarrow> length xs \<noteq> 100 \<and> mapM extractFolderMinimal xs = Inr fs
             | d \<Rightarrow> \<not> truthy d \<and> fs = []))"

text \<open>get_video: the request for a video; a tag list is usable when it is absent or an
  array of objects, and its names are the \<open>name\<close> of each tag.\<close>

fun tag_list_ok :: "json \<Rightarrow> bool" where
  "tag_list_ok (JArr ts) = list_all (\<lambda>t. \<not> nullish t) ts"
| "tag_list_ok v = nullish v"

fun tag_names :: "json \<Rightarrow> json" where
  "tag_names (JArr ts) = JArr (map (\<lambda>t. field t ''name'') ts)"
| "tag_names v = JArr []"

definition video_request :: "string \<Rightarrow> request" where
  "video_request vs = \<lparr>endpoint = ''/videos/'' @ vs
      @ ''?fields=uri,name,description,duration,created_time,parent_folder,tags,privacy,link'',
      meth = ''GET'', body = JUndefined\<rparr>"

text \<open>
  list_videos: the page size that takes effect is the caller's number capped at 100, and
  the default 50 when the caller gives none or 0; the endpoint is the listing of all
  videos or of a folder's, with the page size, the page, and the search text if any.
\<close>

fun effective_per_page :: "json \<Rightarrow> int" where
  "effective_per_page (JNum n) = (if n = 0 then 50 else min n 100)"
| "effective_per_page v = 50"

fun is_number :: "json \<Rightarrow> bool" where
  "is_number (JNum n) = True"
| "is_number v = False"

definition list_videos_endpoint :: "int \<Rightarrow> string \<Rightarrow> string option \<Rightarrow> string option \<Rightarrow> string" where
  "list_videos_endpoint per_page page folder query =
     (case folder of
        None \<Rightarrow> ''/me/videos?per_page='' @ show_int per_page @ ''&page='' @ page
                  @ ''&fields=uri,name,duration,created_time,parent_folder''
      | Some f \<Rightarrow> ''/me/projects/'' @ f @ ''/videos?per_page='' @ show_int per_page
                  @ ''&page='' @ page @ ''&fields=uri,name,duration,created_time'')
     @ (case query of None \<Rightarrow> [] | Some q \<Rightarrow> ''&query='' @ q)"

text \<open>
  get_stats: its three requests; the number of hundredths of a gigabyte nearest to a number
  of bytes (a half rounds up), and that number written with two decimals.
\<close>

definition stats_requests :: "request list" where
  "stats_requests =
     [\<lparr>endpoint = ''/me/videos?per_page=1&fields=uri'', meth = ''GET'', body = JUndefined\<rparr>,
      \<lparr>endpoint = ''/me/projects?per_page=1'', meth = ''GET'', body = JUndefined\<rparr>,
      \<lparr>endpoint = ''/me?fields=upload_quota'', meth = ''GET'', body = JUndefined\<rparr>]"

definition hundredths :: "int \<Rightarrow> nat" where
  "hundredths u = nat ((200 * u + 1073741824) div 2147483648)"

definition gigabytes_2dp :: "int \<Rightarrow> string" where
  "gigabytes_2dp u =
     (let h = hundredths u
      in digits (h div 100) @ ''.''
         @ [''0123456789'' ! (h mod 100 div 10), ''0123456789'' ! (h mod 10)])"

text \<open>A computation that sends no request.\<close>

definition silent :: "'a io \<Rightarrow> bool" where
  "silent m = (\<forall>tr. snd (m tr) = tr)"

section \<open>Text and arrays: basic facts\<close>

lemma field_Nil [simp]: "field (JObj []) k = JUndefined"
  by simp

lemma field_Cons [simp]:
  "field (JObj ((k', v) # kvs)) k = (if k = k' then v else field (JObj kvs) k)"
  by simp

declare field.simps(1) [simp del]

lemma nullish_falsy: "nullish v \<Longrightarrow> \<not> truthy v"
  by (cases v) auto

lemma optGet_nullish: "nullish v \<Longrightarrow> optGet v k = JUndefined"
  by (simp add: optGet_def)

lemma split_str_nonempty: "split_str sep s \<noteq> []"
  by (induction s) (auto split: list.splits)

lemma hd_split_str: "hd (split_str sep s) = takeWhile (\<lambda>c. c \<noteq> sep) s"
  by (induction s) (auto split: list.splits simp: split_str_nonempty)

lemma split_str_no_sep: "sep \<notin> set s \<Longrightarrow> split_str sep s = [s]"
  by (induction s) auto

lemma split_str_has_sep: "sep \<in> set s \<Longrightarrow> \<exists>x y ys. split_str sep s = x # y # ys"
proof (induction s)
  case Nil
  then show ?case by simp
next
  case (Cons c cs)
  obtain z zs where z: "split_str sep cs = z # zs"
    using split_str_nonempty[of sep cs] by (cases "split_str sep cs") auto
  show ?case
  proof (cases "c = sep")
    case True
    then show ?thesis using z by simp
  next
    case False
    then have "sep \<in> set cs" using Cons.prems by auto
    then obtain x y ys where "split_str sep cs = x # y # ys" using Cons.IH by blast
    then show ?thesis using False by simp
  qed
qed

lemma last_split_str: "last (split_str sep s) = rev (takeWhile (\<lambda>c. c \<noteq> sep) (rev s))"
proof (induction s)
  case Nil
  then show ?case by simp
next
  case (Cons c cs)
  show ?case
  proof (cases "sep \<in> set cs")
    case True
    then obtain x y ys where xy: "split_str sep cs = x # y # ys"
      using split_str_has_sep by blast
    have "last (split_str sep (c # cs)) = last (split_str sep cs)"
      using xy by (cases "c = sep") auto
    moreover have "takeWhile (\<lambda>c. c \<noteq> sep) (rev cs @ [c]) = takeWhile (\<lambda>c. c \<noteq> sep) (rev cs)"
      using True by (auto simp add: takeWhile_append)
    ultimately show ?thesis using Cons.IH by simp
  next
    case False
    then have s: "split_str sep cs = [cs]" by (rule split_str_no_sep)
    show ?thesis
    proof (cases "c = sep")
      case True
      then show ?thesis using s False by (simp add: takeWhile_append)
    next
      case False
      then show ?thesis using s \<open>sep \<notin> set cs\<close> by (simp add: takeWhile_append)
    qed
  qed
qed

lemma includes_str_iff: "includes_str s t \<longleftrightarrow> (\<exists>p q. s = p @ t @ q)"
proof (induction s)
  case Nil
  then show ?case by auto
next
  case (Cons c cs)
  show ?case
  proof
    assume "includes_str (c # cs) t"
    then consider "take (length t) (c # cs) = t" | "includes_str cs t" by auto
    then show "\<exists>p q. c # cs = p @ t @ q"
    proof cases
      case 1
      then have "c # cs = [] @ t @ drop (length t) (c # cs)"
        by (metis append_Nil append_take_drop_id)
      then show ?thesis by blast
    next
      case 2
      then obtain p q where "cs = p @ t @ q" using Cons.IH by blast
      then have "c # cs = (c # p) @ t @ q" by simp
      then show ?thesis by blast
    qed
  next
    assume "\<exists>p q. c # cs = p @ t @ q"
    then obtain p q where pq: "c # cs = p @ t @ q" by blast
    show "includes_str (c # cs) t"
    proof (cases p)
      case Nil
      then have "take (length t) (c # cs) = t" using pq by simp
      then show ?thesis by simp
    next
      case (Cons a p')
      then have "cs = p' @ t @ q" using pq by simp
      then have "includes_str cs t" using Cons.IH by blast
      then show ?thesis by simp
    qed
  qed
qed


lemma split_pop_text: "split_pop (CHR ''/'') (JStr s) = Inr (JStr (trailing_segment s))"
  by (simp add: split_pop_def js_pop_def split_str_nonempty trailing_segment_def
      last_map last_split_str)

lemma split_first_text: "split_first sep (JStr s) = Inr (JStr (takeWhile (\<lambda>c. c \<noteq> sep) s))"
proof -
  obtain z zs where z: "split_str sep s = z # zs"
    using split_str_nonempty[of sep s] by (cases "split_str sep s") auto
  then have "z = takeWhile (\<lambda>c. c \<noteq> sep) s" using hd_split_str[of sep s] by simp
  then show ?thesis using z by (simp add: split_first_def js_first_def)
qed

lemma trailing_segment_Nil: "trailing_segment [] = []"
  by (simp add: trailing_segment_def)

lemma extractFolderMinimal_object:
  "extractFolderMinimal (JObj kvs) =
     bnd (split_pop (CHR ''/'') (js_or (field (JObj kvs) ''uri'') (JStr [])))
       (\<lambda>p. Inr (JObj [(''id'', js_or p (JStr [])),
                (''name'', js_or (field (JObj kvs) ''name'') (JStr ''Untitled'')),
                (''video_count'',
                   js_or (optGet (optGet (optGet (field (JObj kvs) ''metadata'') ''connections'')
                       ''videos'') ''total'') (JNum 0))]))"
  by (simp add: extractFolderMinimal_def propGet_def Let_def)

lemma extractVideoMinimal_object:
  "extractVideoMinimal (JObj kvs) =
     bnd (split_pop (CHR ''/'') (js_or (field (JObj kvs) ''uri'') (JStr [])))
       (\<lambda>p. bnd (opt_chain (field (JObj kvs) ''created_time'') (split_first (CHR ''T'')))
       (\<lambda>created. Inr (JObj [(''id'', js_or p (JStr [])),
                (''name'', js_or (field (JObj kvs) ''name'') (JStr ''Untitled'')),
                (''duration'', js_or (field (JObj kvs) ''duration'') (JNum 0)),
                (''created'', js_or created (JStr [])),
                (''folder'', optGet (field (JObj kvs) ''parent_folder'') ''name'')])))"
  by (simp add: extractVideoMinimal_def propGet_def Let_def)

lemma folderVideoItem_object:
  "folderVideoItem (JObj kvs) =
     bnd (opt_chain (field (JObj kvs) ''uri'') (split_pop (CHR ''/'')))
       (\<lambda>ident. bnd (opt_chain (field (JObj kvs) ''created_time'') (split_first (CHR ''T'')))
       (\<lambda>created. Inr (JObj [(''id'', ident),
                (''name'', field (JObj kvs) ''name''),
                (''duration'', field (JObj kvs) ''duration''),
                (''created'', created)])))"
  by (simp add: folderVideoItem_def propGet_def Let_def)

lemma opt_pop_text:
  "is_text u \<Longrightarrow>
     opt_chain u (split_pop (CHR ''/'')) = Inr (JStr (trailing_segment (text_of u)))"
  by (cases u) (auto simp: opt_chain_def split_pop_text)

lemma pop_of_uri:
  "\<not> truthy u \<or> is_text u \<Longrightarrow>
     split_pop (CHR ''/'') (js_or u (JStr [])) = Inr (JStr (trailing_segment (text_of u)))"
  by (cases u) (auto simp: js_or_def split_pop_text trailing_segment_Nil)

lemma created_of_time:
  "nullish ct \<or> is_text ct \<Longrightarrow>
     opt_chain ct (split_first (CHR ''T'')) =
       Inr (if nullish ct then JUndefined else JStr (takeWhile (\<lambda>c. c \<noteq> CHR ''T'') (text_of ct)))"
  by (cases ct) (auto simp: opt_chain_def split_first_text)

section \<open>Identifiers of minimal records\<close>

text \<open>
  C1, amended.  Let \<open>uri\<close> and \<open>created_time\<close> be the fields of a resource object.
  If \<open>uri\<close> is absent, falsy or text, \<open>extractFolderMinimal\<close> returns a record whose
  \<open>id\<close> is the trailing path segment of \<open>uri\<close> (the empty string for an absent or
  empty \<open>uri\<close>); so does \<open>extractVideoMinimal\<close> when moreover \<open>created_time\<close>
  is absent or text.  The record built inline by get_folder_videos has the trailing path
  segment as \<open>id\<close> when \<open>uri\<close> is text, and an undefined \<open>id\<close> (not the empty
  string) when \<open>uri\<close> is absent or null.
\<close>

theorem identifier_is_trailing_segment:
  "(\<not> truthy (field (JObj kvs) ''uri'') \<or> is_text (field (JObj kvs) ''uri'') \<longrightarrow>
      (\<exists>r. extractFolderMinimal (JObj kvs) = Inr r \<and>
           field r ''id'' = JStr (trailing_segment (text_of (field (JObj kvs) ''uri'')))))
   \<and> ((\<not> truthy (field (JObj kvs) ''uri'') \<or> is_text (field (JObj kvs) ''uri''))
        \<and> (nullish (field (JObj kvs) ''created_time'') \<or> is_text (field (JObj kvs) ''created_time'')) \<longrightarrow>
      (\<exists>r. extractVideoMinimal (JObj kvs) = Inr r \<and>
           field r ''id'' = JStr (trailing_segment (text_of (field (JObj kvs) ''uri'')))))
   \<and> (is_text (field (JObj kvs) ''uri'')
        \<and> (nullish (field (JObj kvs) ''created_time'') \<or> is_text (field (JObj kvs) ''created_time'')) \<longrightarrow>
      (\<exists>r. folderVideoItem (JObj kvs) = Inr r \<and>
           field r ''id'' = JStr (trailing_segment (text_of (field (JObj kvs) ''uri'')))))
   \<and> (nullish (field (JObj kvs) ''uri'')
        \<and> (nullish (field (JObj kvs) ''created_time'') \<or> is_text (field (JObj kvs) ''created_time'')) \<longrightarrow>
      (\<exists>r. folderVideoItem (JObj kvs) = Inr r \<and> field r ''id'' = JUndefined))
   \<and> trailing_segment [] = []"
proof -
  let ?u = "field (JObj kvs) ''uri''"
  let ?ct = "field (JObj kvs) ''created_time''"
  have folder: "\<exists>r. extractFolderMinimal (JObj kvs) = Inr r \<and>
           field r ''id'' = JStr (trailing_segment (text_of ?u))"
    if "\<not> truthy ?u \<or> is_text ?u"
    using pop_of_uri[OF that]
    by (simp add: extractFolderMinimal_object js_or_def)
  have video: "\<exists>r. extractVideoMinimal (JObj kvs) = Inr r \<and>
           field r ''id'' = JStr (trailing_segment (text_of ?u))"
    if "\<not> truthy ?u \<or> is_text ?u" and "nullish ?ct \<or> is_text ?ct"
    using pop_of_uri[OF that(1)] created_of_time[OF that(2)]
    by (simp add: extractVideoMinimal_object js_or_def)
  have item_text: "\<exists>r. folderVideoItem (JObj kvs) = Inr r \<and>
           field r ''id'' = JStr (trailing_segment (text_of ?u))"
    if "is_text ?u" and "nullish ?ct \<or> is_text ?ct"
  proof -
    have "opt_chain ?u (split_pop (CHR ''/'')) = Inr (JStr (trailing_segment (text_of ?u)))"
      using that(1) by (rule opt_pop_text)
    then show ?thesis using created_of_time[OF that(2)]
      by (simp add: folderVideoItem_object)
  qed
  have item_absent: "\<exists>r. folderVideoItem (JObj kvs) = Inr r \<and> field r ''id'' = JUndefined"
    if "nullish ?u" and "nullish ?ct \<or> is_text ?ct"
  proof -
    have "opt_chain ?u (split_pop (CHR ''/'')) = Inr JUndefined"
      using that(1) by (simp add: opt_chain_def)
    then show ?thesis using created_of_time[OF that(2)]
      by (simp add: folderVideoItem_object)
  qed
  show ?thesis
    using folder video item_text item_absent trailing_segment_Nil by blast
qed

text \<open>The theorem at a resource whose \<open>uri\<close> ends in \<open>789\<close>, and at one without
  \<open>uri\<close>.\<close>

theorem identifier_is_trailing_segment_witness:
  "is_text (field (JObj [(''uri'', JStr ''/users/7/projects/789'')]) ''uri'')
   \<and> nullish (field (JObj [(''uri'', JStr ''/users/7/projects/789'')]) ''created_time'')
   \<and> (\<exists>r. extractFolderMinimal (JObj [(''uri'', JStr ''/users/7/projects/789'')]) = Inr r
          \<and> field r ''id'' = JStr ''789'')
   \<and> (\<exists>r. extractVideoMinimal (JObj [(''uri'', JStr ''/users/7/projects/789'')]) = Inr r
          \<and> field r ''id'' = JStr ''789'')
   \<and> (\<exists>r. folderVideoItem (JObj [(''uri'', JStr ''/users/7/projects/789'')]) = Inr r
          \<and> field r ''id'' = JStr ''789'')
   \<and> nullish (field (JObj [(''name'', JStr ''clip'')]) ''uri'')
   \<and> (\<exists>r. extractFolderMinimal (JObj [(''name'', JStr ''clip'')]) = Inr r
          \<and> field r ''id'' = JStr [])
   \<and> (\<exists>r. extractVideoMinimal (JObj [(''name'', JStr ''clip'')]) = Inr r
          \<and> field r ''id'' = JStr [])
   \<and> (\<exists>r. folderVideoItem (JObj [(''name'', JStr ''clip'')]) = Inr r
          \<and> field r ''id'' = JUndefined)"
  using identifier_is_trailing_segment [of "[(''uri'', JStr ''/users/7/projects/789'')]"]
    identifier_is_trailing_segment [of "[(''name'', JStr ''clip'')]"]
  by (simp add: trailing_segment_def)

text \<open>
  C1 as stated fails for the inline record: a video without \<open>uri\<close> gets an undefined
  \<open>id\<close>, which the serialised result leaves out.
\<close>

theorem inline_identifier_counterexample:
  "folderVideoItem (JObj [(''name'', JStr ''clip'')]) =
     Inr (JObj [(''id'', JUndefined), (''name'', JStr ''clip''), (''duration'', JUndefined),
                (''created'', JUndefined)])
   \<and> field (JObj [(''id'', JUndefined), (''name'', JStr ''clip''), (''duration'', JUndefined),
                (''created'', JUndefined)]) ''id'' \<noteq> JStr []
   \<and> JSON_stringify (JObj [(''id'', JUndefined), (''name'', JStr ''clip''),
         (''duration'', JUndefined), (''created'', JUndefined)])
       = JSON_stringify (JObj [(''name'', JStr ''clip'')])"
  by (simp add: folderVideoItem_def propGet_def opt_chain_def JSON_stringify_def)

section \<open>update_video: the body of the PATCH request\<close>

lemmas io_defs = io_bind_def io_lift_def io_return_def vimeoRequest_def

lemma handleUpdateVideo_object:
  assumes "js_toString (field (JObj kvs) ''video_id'') = Inr vs"
  shows "handleUpdateVideo up (JObj kvs) tr =
     (let rq = \<lparr>endpoint = ''/videos/'' @ vs, meth = ''PATCH'',
                body = JObj (set_if_truthy ''tags'' (field (JObj kvs) ''tags'')
                  (set_if_truthy ''description'' (field (JObj kvs) ''description'')
                    (set_if_truthy ''name'' (field (JObj kvs) ''name'') [])))\<rparr>
      in (case up tr rq of
            Inl e \<Rightarrow> Inl (Thrown e)
          | Inr res \<Rightarrow> Inr (JSON_stringify (JObj [(''success'', JBool (status res = 200)),
                                (''video_id'', field (JObj kvs) ''video_id'')])),
          tr @ [rq]))"
  using assms
  by (simp add: handleUpdateVideo_def io_defs propGet_def Let_def split: sum.splits)

text \<open>
  C2, amended.  For every update_video call whose arguments are an object with a
  \<open>video_id\<close> that converts to text, one request is sent, a PATCH of the video, and its
  body holds exactly the fields among name, description and tags whose supplied value is
  truthy, each with the supplied value and no others.  A field absent from the input is
  left out (never sent as null), and so is a field supplied as the empty string.
\<close>

theorem update_body_truthy_fields:
  assumes "js_toString (field (JObj kvs) ''video_id'') = Inr vs"
  shows "snd (handleUpdateVideo up (JObj kvs) tr) =
     tr @ [\<lparr>endpoint = ''/videos/'' @ vs, meth = ''PATCH'',
             body = JObj (filter (\<lambda>(k, v). truthy v)
                      [(''name'', field (JObj kvs) ''name''),
                       (''description'', field (JObj kvs) ''description''),
                       (''tags'', field (JObj kvs) ''tags'')])\<rparr>]"
  by (simp add: handleUpdateVideo_object[OF assms] Let_def set_if_truthy_def)

text \<open>The call with only \<open>{video_id, name: "X"}\<close> sends the body \<open>{name: "X"}\<close>.\<close>

theorem update_body_truthy_fields_witness:
  "js_toString (field (JObj [(''video_id'', JStr ''42''), (''name'', JStr ''X'')]) ''video_id'') = Inr ''42''
   \<and> snd (handleUpdateVideo (\<lambda>tr rq. Inr \<lparr>status = 200, data = JObj []\<rparr>)
          (JObj [(''video_id'', JStr ''42''), (''name'', JStr ''X'')]) [])
       = [\<lparr>endpoint = ''/videos/42'', meth = ''PATCH'', body = JObj [(''name'', JStr ''X'')]\<rparr>]
   \<and> written \<lparr>endpoint = ''/videos/42'', meth = ''PATCH'', body = JObj [(''name'', JStr ''X'')]\<rparr>
       = Some ([CHR ''{'', CHR 0x22] @ ''name'' @ [CHR 0x22, CHR '':'', CHR 0x22] @ ''X'' @ [CHR 0x22, CHR ''}''])"
  using update_body_truthy_fields [of "[(''video_id'', JStr ''42''), (''name'', JStr ''X'')]" "''42''"
          "\<lambda>tr rq. Inr \<lparr>status = 200, data = JObj []\<rparr>" "[]"]
  by (simp add: written_def JSON_stringify_def quoteJSON_def quote_unit_def)

text \<open>C2 as stated fails where the caller supplies the empty string as name: the body
  sent has no name.\<close>

theorem update_body_counterexample:
  "map_of [(''video_id'', JStr ''42''), (''name'', JStr [])] ''name'' = Some (JStr [])
   \<and> snd (handleUpdateVideo (\<lambda>tr rq. Inr \<lparr>status = 200, data = JObj []\<rparr>)
          (JObj [(''video_id'', JStr ''42''), (''name'', JStr [])]) [])
       = [\<lparr>endpoint = ''/videos/42'', meth = ''PATCH'', body = JObj []\<rparr>]"
  by (simp add: handleUpdateVideo_def io_defs propGet_def set_if_truthy_def)

text \<open>
  C10.  In every update_video call (arguments an object, \<open>video_id\<close> convertible to
  text), a name or a description supplied as the empty string is left out of the body of
  the PATCH request, and a tags array supplied empty is in it.
\<close>

theorem update_omits_empty_text:
  assumes "js_toString (field (JObj kvs) ''video_id'') = Inr vs"
  shows "\<exists>b. snd (handleUpdateVideo up (JObj kvs) tr) =
               tr @ [\<lparr>endpoint = ''/videos/'' @ vs, meth = ''PATCH'', body = JObj b\<rparr>]
     \<and> (field (JObj kvs) ''name'' = JStr [] \<longrightarrow> ''name'' \<notin> fst ` set b)
     \<and> (field (JObj kvs) ''description'' = JStr [] \<longrightarrow> ''description'' \<notin> fst ` set b)
     \<and> (field (JObj kvs) ''tags'' = JArr [] \<longrightarrow> (''tags'', JArr []) \<in> set b)"
  by (auto simp add: handleUpdateVideo_object[OF assms] Let_def set_if_truthy_def)

text \<open>A call that supplies all three empty sends only the tags.\<close>

theorem update_omits_empty_text_witness:
  "js_toString (field (JObj [(''video_id'', JStr ''42''), (''name'', JStr []), (''description'', JStr []), (''tags'', JArr [])]) ''video_id'') = Inr ''42''
   \<and> field (JObj [(''video_id'', JStr ''42''), (''name'', JStr []), (''description'', JStr []), (''tags'', JArr [])]) ''name'' = JStr []
   \<and> field (JObj [(''video_id'', JStr ''42''), (''name'', JStr []), (''description'', JStr []), (''tags'', JArr [])]) ''description'' = JStr []
   \<and> field (JObj [(''video_id'', JStr ''42''), (''name'', JStr []), (''description'', JStr []), (''tags'', JArr [])]) ''tags'' = JArr []
   \<and> snd (handleUpdateVideo (\<lambda>tr rq. Inr \<lparr>status = 200, data = JObj []\<rparr>)
          (JObj [(''video_id'', JStr ''42''), (''name'', JStr []), (''description'', JStr []), (''tags'', JArr [])]) [])
       = [\<lparr>endpoint = ''/videos/42'', meth = ''PATCH'', body = JObj [(''tags'', JArr [])]\<rparr>]"
  using update_omits_empty_text [of "[(''video_id'', JStr ''42''), (''name'', JStr []), (''description'', JStr []), (''tags'', JArr [])]" "''42''"
          "\<lambda>tr rq. Inr \<lparr>status = 200, data = JObj []\<rparr>" "[]"]
  by (simp add: handleUpdateVideo_def io_defs propGet_def set_if_truthy_def)

section \<open>create_folder: the three outcomes\<close>

lemma handleCreateFolder_object:
  assumes "up tr \<lparr>endpoint = ''/me/projects'', meth = ''POST'',
                  body = JObj [(''name'', field (JObj kvs) ''name'')]\<rparr> = Inr res"
    and "data res = JObj d"
  shows "handleCreateFolder up (JObj kvs) tr =
     ((if status res = 201 then
         bnd (opt_chain (field (JObj d) ''uri'') (split_pop (CHR ''/'')))
           (\<lambda>ident. Inr (JSON_stringify (JObj [(''success'', JBool True), (''id'', ident),
                            (''name'', field (JObj kvs) ''name'')])))
       else
         bnd (if status res = 400
              then opt_chain (field (JObj d) ''error'') (\<lambda>x. js_includes x ''already exists'')
              else Inr (JBool False))
           (\<lambda>exists. if truthy exists
              then Inr (JSON_stringify (JObj [(''success'', JBool False),
                          (''error'', JStr ''Folder already exists'')]))
              else Inr (JSON_stringify (JObj [(''success'', JBool False),
                          (''error'', js_or (field (JObj d) ''error'')
                                        (JStr ''Failed to create folder''))])))),
      tr @ [\<lparr>endpoint = ''/me/projects'', meth = ''POST'',
              body = JObj [(''name'', field (JObj kvs) ''name'')]\<rparr>])"
  using assms
  by (simp add: handleCreateFolder_def io_defs propGet_def Let_def split: sum.splits)

lemma includes_text:
  "nullish e \<or> is_text e \<Longrightarrow>
     opt_chain e (\<lambda>x. js_includes x t) =
       Inr (if nullish e then JUndefined else JBool (contains_text (text_of e) t))"
  by (cases e) (auto simp: opt_chain_def includes_str_iff contains_text_def)

text \<open>
  C3, amended.  Let the upstream answer a create_folder call with status and an object as
  body.  On 201 with the self URI as text, the result is \<open>{success: true, id, name}\<close>
  with the trailing path segment of the URI as id and the input name.  On 400 with an error
  text that contains "already exists", it is exactly
  \<open>{success: false, error: "Folder already exists"}\<close>.  On any other status but 201
  (400 with an absent error or an error text without "already exists" included), it is
  \<open>{success: false, error}\<close> with the upstream error when that is truthy, and with the
  fixed text "Failed to create folder" when the upstream gives none.
\<close>

theorem create_folder_results:
  assumes "up tr \<lparr>endpoint = ''/me/projects'', meth = ''POST'',
                  body = JObj [(''name'', field (JObj kvs) ''name'')]\<rparr> = Inr res"
    and "data res = JObj d"
  shows "(status res = 201 \<and> is_text (field (JObj d) ''uri'') \<longrightarrow>
           fst (handleCreateFolder up (JObj kvs) tr) =
             Inr (JSON_stringify (JObj [(''success'', JBool True),
                    (''id'', JStr (trailing_segment (text_of (field (JObj d) ''uri'')))),
                    (''name'', field (JObj kvs) ''name'')])))
       \<and> (status res = 400 \<and> is_text (field (JObj d) ''error'')
            \<and> contains_text (text_of (field (JObj d) ''error'')) ''already exists'' \<longrightarrow>
           fst (handleCreateFolder up (JObj kvs) tr) =
             Inr (JSON_stringify (JObj [(''success'', JBool False),
                    (''error'', JStr ''Folder already exists'')])))
       \<and> (status res \<noteq> 201 \<and> status res \<noteq> 400 \<longrightarrow>
           fst (handleCreateFolder up (JObj kvs) tr) =
             Inr (JSON_stringify (JObj [(''success'', JBool False),
                    (''error'', if truthy (field (JObj d) ''error'') then field (JObj d) ''error''
                                else JStr ''Failed to create folder'')])))
       \<and> (status res = 400
            \<and> (nullish (field (JObj d) ''error'') \<or> is_text (field (JObj d) ''error''))
            \<and> \<not> contains_text (text_of (field (JObj d) ''error'')) ''already exists'' \<longrightarrow>
           fst (handleCreateFolder up (JObj kvs) tr) =
             Inr (JSON_stringify (JObj [(''success'', JBool False),
                    (''error'', if truthy (field (JObj d) ''error'') then field (JObj d) ''error''
                                else JStr ''Failed to create folder'')])))"
proof -
  let ?e = "field (JObj d) ''error''"
  note cf = handleCreateFolder_object[of up tr kvs res d, OF assms]
  have created: "fst (handleCreateFolder up (JObj kvs) tr) =
             Inr (JSON_stringify (JObj [(''success'', JBool True),
                    (''id'', JStr (trailing_segment (text_of (field (JObj d) ''uri'')))),
                    (''name'', field (JObj kvs) ''name'')]))"
    if "status res = 201" and "is_text (field (JObj d) ''uri'')"
    using that(1) opt_pop_text[OF that(2)] by (simp add: cf)
  have dup: "fst (handleCreateFolder up (JObj kvs) tr) =
             Inr (JSON_stringify (JObj [(''success'', JBool False),
                    (''error'', JStr ''Folder already exists'')]))"
    if "status res = 400" and "is_text ?e" and "contains_text (text_of ?e) ''already exists''"
  proof -
    have "\<not> nullish ?e" using that(2) by (cases ?e) (auto)
    then show ?thesis
      using that includes_text[of ?e "''already exists''"]
      by (simp add: cf)
  qed
  have other: "fst (handleCreateFolder up (JObj kvs) tr) =
             Inr (JSON_stringify (JObj [(''success'', JBool False),
                    (''error'', if truthy ?e then ?e else JStr ''Failed to create folder'')]))"
    if "status res \<noteq> 201" and "status res \<noteq> 400"
    using that by (simp add: cf js_or_def)
  have other400: "fst (handleCreateFolder up (JObj kvs) tr) =
             Inr (JSON_stringify (JObj [(''success'', JBool False),
                    (''error'', if truthy ?e then ?e else JStr ''Failed to create folder'')]))"
    if "status res = 400" and "nullish ?e \<or> is_text ?e"
      and "\<not> contains_text (text_of ?e) ''already exists''"
    using that(1,3) includes_text[OF that(2), of "''already exists''"]
    by (simp add: cf js_or_def)
  show ?thesis using created dup other other400 by blast
qed

text \<open>A 201 with self URI \<open>.../projects/789\<close>, a 400 "already exists", and a
  403 with its own error text.\<close>

theorem create_folder_results_witness:
  "fst (handleCreateFolder
          (\<lambda>tr rq. Inr \<lparr>status = 201, data = JObj [(''uri'', JStr ''/users/1/projects/789'')]\<rparr>)
          (JObj [(''name'', JStr ''Docs'')]) []) =
     Inr (JSON_stringify (JObj [(''success'', JBool True), (''id'', JStr ''789''),
            (''name'', JStr ''Docs'')]))
   \<and> fst (handleCreateFolder
          (\<lambda>tr rq. Inr \<lparr>status = 400,
                          data = JObj [(''error'', JStr ''A folder named Docs already exists.'')]\<rparr>)
          (JObj [(''name'', JStr ''Docs'')]) []) =
     Inr (JSON_stringify (JObj [(''success'', JBool False),
            (''error'', JStr ''Folder already exists'')]))
   \<and> fst (handleCreateFolder
          (\<lambda>tr rq. Inr \<lparr>status = 403, data = JObj [(''error'', JStr ''Forbidden'')]\<rparr>)
          (JObj [(''name'', JStr ''Docs'')]) []) =
     Inr (JSON_stringify (JObj [(''success'', JBool False), (''error'', JStr ''Forbidden'')]))"
proof -
  have c: "contains_text ''A folder named Docs already exists.'' ''already exists''"
    unfolding contains_text_def
    by (rule exI[of _ "''A folder named Docs ''"], rule exI[of _ "''.''"]) simp
  show ?thesis
    using create_folder_results [of
        "\<lambda>tr rq. Inr \<lparr>status = 201, data = JObj [(''uri'', JStr ''/users/1/projects/789'')]\<rparr>"
        "[]" "[(''name'', JStr ''Docs'')]"
        "\<lparr>status = 201, data = JObj [(''uri'', JStr ''/users/1/projects/789'')]\<rparr>"
        "[(''uri'', JStr ''/users/1/projects/789'')]"]
      create_folder_results [of
        "\<lambda>tr rq. Inr \<lparr>status = 400,
                        data = JObj [(''error'', JStr ''A folder named Docs already exists.'')]\<rparr>"
        "[]" "[(''name'', JStr ''Docs'')]"
        "\<lparr>status = 400, data = JObj [(''error'', JStr ''A folder named Docs already exists.'')]\<rparr>"
        "[(''error'', JStr ''A folder named Docs already exists.'')]"]
      create_folder_results [of
        "\<lambda>tr rq. Inr \<lparr>status = 403, data = JObj [(''error'', JStr ''Forbidden'')]\<rparr>"
        "[]" "[(''name'', JStr ''Docs'')]"
        "\<lparr>status = 403, data = JObj [(''error'', JStr ''Forbidden'')]\<rparr>"
        "[(''error'', JStr ''Forbidden'')]"]
      c
    by (simp add: trailing_segment_def)
qed

text \<open>C3 as stated fails on a 500 without error text: the error of the result is
  the fixed text, not an upstream message.\<close>

theorem create_folder_error_counterexample:
  "fst (handleCreateFolder (\<lambda>tr rq. Inr \<lparr>status = 500, data = JObj []\<rparr>)
          (JObj [(''name'', JStr ''Docs'')]) []) =
     Inr (JSON_stringify (JObj [(''success'', JBool False),
            (''error'', JStr ''Failed to create folder'')]))
   \<and> field (JObj []) ''error'' = JUndefined
   \<and> JSON_stringify (JObj [(''success'', JBool False), (''error'', JStr ''Failed to create folder'')])
       \<noteq> JSON_stringify (JObj [(''success'', JBool False), (''error'', field (JObj []) ''error'')])"
  by (simp add: handleCreateFolder_def io_defs propGet_def js_or_def JSON_stringify_def)

section \<open>list_folders: the pagination loop\<close>

lemma mapM_length: "mapM f xs = Inr ys \<Longrightarrow> length ys = length xs"
proof (induction xs arbitrary: ys)
  case Nil
  then show ?case by simp
next
  case (Cons x xs)
  then show ?case
    by (cases "f x"; cases "mapM f xs") auto
qed

lemma loop_last_page:
  assumes "last_page (up tr (page_request p)) fs"
  shows "listFolders_loop up acc p tr = Some (Inr (acc @ fs), tr @ [page_request p])"
proof -
  obtain res where res: "up tr (page_request p) = Inr res"
    using assms by (cases "up tr (page_request p)") (auto simp: last_page_def)
  show ?thesis
  proof (cases "status res = 200")
    case False
    then show ?thesis using assms res
      by (subst listFolders_loop.simps)
         (simp add: vimeoRequest_def last_page_def page_request_def)
  next
    case True
    then have nn: "\<not> nullish (data res)" using assms res by (simp add: last_page_def)
    show ?thesis
    proof (cases "field (data res) ''data''")
      case (JArr xs)
      then have "length xs \<noteq> 100" and "mapM extractFolderMinimal xs = Inr fs"
        using assms res True by (simp_all add: last_page_def)
      then show ?thesis using res True nn JArr
        by (subst listFolders_loop.simps)
           (simp add: vimeoRequest_def page_request_def propGet_def)
    qed (use assms res True nn in \<open>subst listFolders_loop.simps,
          simp add: vimeoRequest_def last_page_def page_request_def propGet_def\<close>)+
  qed
qed

lemma loop_full_page:
  assumes "full_page (up tr (page_request p)) fs"
  shows "listFolders_loop up acc p tr =
           listFolders_loop up (acc @ fs) (p + 1) (tr @ [page_request p])"
proof -
  obtain res where res: "up tr (page_request p) = Inr res"
    using assms by (cases "up tr (page_request p)") (auto simp: full_page_def)
  then obtain xs where xs: "status res = 200" "\<not> nullish (data res)"
      "field (data res) ''data'' = JArr xs" "length xs = 100"
      "mapM extractFolderMinimal xs = Inr fs"
    using assms by (cases "field (data res) ''data''") (auto simp: full_page_def)
  show ?thesis
    using res xs
    by (subst listFolders_loop.simps)
       (simp add: vimeoRequest_def page_request_def propGet_def)
qed

lemma upto_step: "[p..p + int (Suc n) - 1] = p # [p + 1..p + 1 + int n - 1]"
proof -
  have "p \<le> p + int (Suc n) - 1" by simp
  then have "[p..p + int (Suc n) - 1] = p # [p + 1..p + int (Suc n) - 1]" by (rule upto_rec1)
  moreover have "p + int (Suc n) - 1 = p + 1 + int n - 1" by simp
  ultimately show ?thesis by simp
qed

lemma upto_step': "[p..p + int (Suc n)] = p # [p + 1..p + 1 + int n]"
  using upto_step[of p "Suc n"] by (simp add: ac_simps)

lemma loop_pages:
  assumes "\<And>k. k < n \<Longrightarrow>
             full_page (up (tr @ map page_request [p..p + int k - 1]) (page_request (p + int k))) (F k)"
    and "last_page (up (tr @ map page_request [p..p + int n - 1]) (page_request (p + int n))) L"
  shows "listFolders_loop up acc p tr =
           Some (Inr (acc @ concat (map F [0..<n]) @ L), tr @ map page_request [p..p + int n])"
  using assms
proof (induction n arbitrary: acc p tr F)
  case 0
  then show ?case using loop_last_page[of up tr p L acc] by simp
next
  case (Suc n)
  have first: "full_page (up tr (page_request p)) (F 0)"
    using Suc.prems(1)[of 0] by simp
  have shift: "tr @ map page_request [p..p + int (Suc k) - 1]
                = (tr @ [page_request p]) @ map page_request [p + 1..p + 1 + int k - 1]" for k
    using upto_step[of p k] by simp
  have full': "full_page (up ((tr @ [page_request p]) @ map page_request [p + 1..p + 1 + int k - 1])
                   (page_request (p + 1 + int k))) (F (Suc k))" if "k < n" for k
    using Suc.prems(1)[of "Suc k"] that shift[of k] by (simp add: ac_simps)
  have last': "last_page (up ((tr @ [page_request p]) @ map page_request [p + 1..p + 1 + int n - 1])
                   (page_request (p + 1 + int n))) L"
    using Suc.prems(2) shift[of n] by (simp add: ac_simps)
  have "listFolders_loop up (acc @ F 0) (p + 1) (tr @ [page_request p]) =
          Some (Inr ((acc @ F 0) @ concat (map (\<lambda>k. F (Suc k)) [0..<n]) @ L),
                (tr @ [page_request p]) @ map page_request [p + 1..p + 1 + int n])"
    using Suc.IH[of "tr @ [page_request p]" "p + 1" "\<lambda>k. F (Suc k)" "acc @ F 0"] full' last'
    by blast
  moreover have "concat (map F [0..<Suc n]) = F 0 @ concat (map (\<lambda>k. F (Suc k)) [0..<n])"
    by (simp add: upt_conv_Cons map_Suc_upt[symmetric] comp_def del: upt_Suc)
  moreover have "tr @ map page_request [p..p + int (Suc n)]
                  = (tr @ [page_request p]) @ map page_request [p + 1..p + 1 + int n]"
    using upto_step'[of p n] by simp
  ultimately show ?case
    using loop_full_page[of up tr p "F 0" acc, OF first] by simp
qed


lemma mapM_replicate: "f x = Inr y \<Longrightarrow> mapM f (replicate n x) = Inr (replicate n y)"
  by (induction n) auto

lemma full_page_length: "full_page r fs \<Longrightarrow> length fs = 100"
  by (auto simp: full_page_def split: sum.splits json.splits dest: mapM_length)

text \<open>
  C4.  If the upstream answers the fetches of pages 1 to \<open>n\<close> with full pages and the
  fetch of page \<open>n + 1\<close> with a short or a failed page, list_folders returns: it has sent
  exactly these \<open>n + 1\<close> fetches in order, and its result is \<open>{total, folders}\<close> with
  the folders of all the pages and their number, 100 for each full page and those of the
  last, as total.  A failed page is no error: the folders accumulated before it are the
  result.
\<close>

theorem list_folders_pages:
  assumes "\<And>k. k < n \<Longrightarrow>
             full_page (up (tr @ map page_request [1..int k]) (page_request (int k + 1))) (F k)"
    and "last_page (up (tr @ map page_request [1..int n]) (page_request (int n + 1))) L"
  shows "handleListFolders up tr =
           Some (Inr (JSON_stringify2
                   (JObj [(''total'', JNum (int (length (concat (map F [0..<n]) @ L)))),
                          (''folders'', JArr (concat (map F [0..<n]) @ L))])),
                 tr @ map page_request [1..int n + 1])
       \<and> length (concat (map F [0..<n]) @ L) = 100 * n + length L"
proof -
  have full: "full_page (up (tr @ map page_request [1..1 + int k - 1])
                (page_request (1 + int k))) (F k)" if "k < n" for k
    using assms(1)[OF that] by (simp add: ac_simps)
  have last: "last_page (up (tr @ map page_request [1..1 + int n - 1])
                (page_request (1 + int n))) L"
    using assms(2) by (simp add: ac_simps)
  have loop: "listFolders_loop up [] 1 tr =
           Some (Inr ([] @ concat (map F [0..<n]) @ L), tr @ map page_request [1..1 + int n])"
    using full last by (rule loop_pages)
  have "length (F k) = 100" if "k < n" for k
    using assms(1)[OF that] by (rule full_page_length)
  then have "length (concat (map F [0..<n])) = 100 * n"
    by (induction n) auto
  then have "length (concat (map F [0..<n]) @ L) = 100 * n + length L"
    by simp
  moreover have "handleListFolders up tr =
           Some (Inr (JSON_stringify2
                   (JObj [(''total'', JNum (int (length (concat (map F [0..<n]) @ L)))),
                          (''folders'', JArr (concat (map F [0..<n]) @ L))])),
                 tr @ map page_request [1..int n + 1])"
    using loop by (simp add: handleListFolders_def ac_simps)
  ultimately show ?thesis by blast
qed

text \<open>An upstream with 100 folders on page 1 and none on page 2: two fetches, and
  a total of 100.  The same when page 2 fails with status 500.\<close>

theorem list_folders_pages_witness:
  "handleListFolders
     (\<lambda>tr rq. if endpoint rq = ''/me/projects?per_page=100&page=1''
               then Inr \<lparr>status = 200, data = JObj [(''data'', JArr (replicate 100
                      (JObj [(''uri'', JStr ''/users/1/projects/5''), (''name'', JStr ''F'')])))]\<rparr>
               else Inr \<lparr>status = 200, data = JObj [(''data'', JArr [])]\<rparr>) []
   = Some (Inr (JSON_stringify2
             (JObj [(''total'', JNum 100),
                    (''folders'', JArr (replicate 100
                       (JObj [(''id'', JStr ''5''), (''name'', JStr ''F''),
                              (''video_count'', JNum 0)])))])),
           [\<lparr>endpoint = ''/me/projects?per_page=100&page=1'', meth = ''GET'', body = JUndefined\<rparr>,
            \<lparr>endpoint = ''/me/projects?per_page=100&page=2'', meth = ''GET'', body = JUndefined\<rparr>])
   \<and> handleListFolders
     (\<lambda>tr rq. if endpoint rq = ''/me/projects?per_page=100&page=1''
               then Inr \<lparr>status = 200, data = JObj [(''data'', JArr (replicate 100
                      (JObj [(''uri'', JStr ''/users/1/projects/5''), (''name'', JStr ''F'')])))]\<rparr>
               else Inr \<lparr>status = 500, data = JObj []\<rparr>) []
   = Some (Inr (JSON_stringify2
             (JObj [(''total'', JNum 100),
                    (''folders'', JArr (replicate 100
                       (JObj [(''id'', JStr ''5''), (''name'', JStr ''F''),
                              (''video_count'', JNum 0)])))])),
           [\<lparr>endpoint = ''/me/projects?per_page=100&page=1'', meth = ''GET'', body = JUndefined\<rparr>,
            \<lparr>endpoint = ''/me/projects?per_page=100&page=2'', meth = ''GET'', body = JUndefined\<rparr>])"
proof -
  let ?up = "\<lambda>r2 (tr :: request list) rq. if endpoint rq = ''/me/projects?per_page=100&page=1''
               then Inr \<lparr>status = 200, data = JObj [(''data'', JArr (replicate 100
                      (JObj [(''uri'', JStr ''/users/1/projects/5''), (''name'', JStr ''F'')])))]\<rparr>
               else (Inr r2 :: js_error + VimeoResponse)"
  let ?F = "\<lambda>k::nat. replicate 100 (JObj [(''id'', JStr ''5''), (''name'', JStr ''F''),
                              (''video_count'', JNum 0)])"
  have p1: "page_request 1 = \<lparr>endpoint = ''/me/projects?per_page=100&page=1'', meth = ''GET'', body = JUndefined\<rparr>"
    by (simp add: page_request_def show_int_def digits.simps)
  have p2: "page_request 2 = \<lparr>endpoint = ''/me/projects?per_page=100&page=2'', meth = ''GET'', body = JUndefined\<rparr>"
    by (simp add: page_request_def show_int_def digits.simps)
  have ex: "extractFolderMinimal (JObj [(''uri'', JStr ''/users/1/projects/5''), (''name'', JStr ''F'')])
             = Inr (JObj [(''id'', JStr ''5''), (''name'', JStr ''F''), (''video_count'', JNum 0)])"
    by (simp add: extractFolderMinimal_def propGet_def optGet_def js_or_def split_pop_text
        trailing_segment_def)
  have full: "full_page (?up r2 ([] @ map page_request [1..int k]) (page_request (int k + 1))) (?F k)"
    if "k < 1" for k r2
    using that mapM_replicate[of extractFolderMinimal _ _ 100, OF ex] by (simp add: p1 full_page_def)
  have run: "handleListFolders (?up r2) [] =
      Some (Inr (JSON_stringify2
             (JObj [(''total'', JNum 100),
                    (''folders'', JArr (replicate 100
                       (JObj [(''id'', JStr ''5''), (''name'', JStr ''F''),
                              (''video_count'', JNum 0)])))])),
           [\<lparr>endpoint = ''/me/projects?per_page=100&page=1'', meth = ''GET'', body = JUndefined\<rparr>,
            \<lparr>endpoint = ''/me/projects?per_page=100&page=2'', meth = ''GET'', body = JUndefined\<rparr>])"
    if "last_page (Inr r2) []" for r2
  proof -
    have last: "last_page (?up r2 ([] @ map page_request [1..int 1]) (page_request (int 1 + 1))) []"
      using that by (simp add: p2)
    show ?thesis
      using list_folders_pages[of 1 "?up r2" "[]" ?F "[]", OF full last]
      by (simp add: p1 p2 upto_rec1)
  qed
  have empty: "last_page (Inr \<lparr>status = 200, data = JObj [(''data'', JArr [])]\<rparr>) []"
    by (simp add: last_page_def)
  have failed: "last_page (Inr \<lparr>status = 500, data = JObj []\<rparr>) []"
    by (simp add: last_page_def)
  show ?thesis
    using run[OF empty] run[OF failed] by simp
qed

section \<open>The extractors on incomplete resources\<close>

text \<open>
  C6.  On every resource object whose \<open>uri\<close> and \<open>created_time\<close> are absent or text
  (\<open>uri\<close> may also be any falsy value), whatever else it holds, both extractors return
  a record: a missing name becomes "Untitled", a missing duration 0, a missing creation
  time the empty string, a missing parent folder no folder, and a metadata block missing
  at any level of \<open>metadata.connections.videos.total\<close> a video count of 0.  On the
  empty object the records are exactly the defaults, and the video record is serialised,
  at any depth and with any indentation, as the record without a folder field.
\<close>

theorem extractors_tolerate_absence:
  "((\<not> truthy (field (JObj kvs) ''uri'') \<or> is_text (field (JObj kvs) ''uri''))
      \<and> (nullish (field (JObj kvs) ''created_time'') \<or> is_text (field (JObj kvs) ''created_time''))
     \<longrightarrow> (\<exists>r. extractVideoMinimal (JObj kvs) = Inr r
            \<and> (nullish (field (JObj kvs) ''name'') \<longrightarrow> field r ''name'' = JStr ''Untitled'')
            \<and> (nullish (field (JObj kvs) ''duration'') \<longrightarrow> field r ''duration'' = JNum 0)
            \<and> (nullish (field (JObj kvs) ''created_time'') \<longrightarrow> field r ''created'' = JStr [])
            \<and> (nullish (field (JObj kvs) ''parent_folder'') \<longrightarrow> field r ''folder'' = JUndefined)))
   \<and> (\<not> truthy (field (JObj kvs) ''uri'') \<or> is_text (field (JObj kvs) ''uri'')
     \<longrightarrow> (\<exists>r. extractFolderMinimal (JObj kvs) = Inr r
            \<and> (nullish (field (JObj kvs) ''name'') \<longrightarrow> field r ''name'' = JStr ''Untitled'')
            \<and> (nullish (field (JObj kvs) ''metadata'')
                 \<or> nullish (optGet (field (JObj kvs) ''metadata'') ''connections'')
                 \<or> nullish (optGet (optGet (field (JObj kvs) ''metadata'') ''connections'') ''videos'')
                 \<or> nullish (optGet (optGet (optGet (field (JObj kvs) ''metadata'') ''connections'')
                               ''videos'') ''total'')
                \<longrightarrow> field r ''video_count'' = JNum 0)))
   \<and> extractVideoMinimal (JObj []) =
        Inr (JObj [(''id'', JStr []), (''name'', JStr ''Untitled''), (''duration'', JNum 0),
                   (''created'', JStr []), (''folder'', JUndefined)])
   \<and> extractFolderMinimal (JObj []) =
        Inr (JObj [(''id'', JStr []), (''name'', JStr ''Untitled''), (''video_count'', JNum 0)])
   \<and> serialize gap ind (JObj [(''id'', JStr []), (''name'', JStr ''Untitled''),
                   (''duration'', JNum 0), (''created'', JStr []), (''folder'', JUndefined)])
       = serialize gap ind (JObj [(''id'', JStr []), (''name'', JStr ''Untitled''),
                   (''duration'', JNum 0), (''created'', JStr [])])"
proof -
  let ?o = "JObj kvs"
  have video: "\<exists>r. extractVideoMinimal ?o = Inr r
            \<and> (nullish (field ?o ''name'') \<longrightarrow> field r ''name'' = JStr ''Untitled'')
            \<and> (nullish (field ?o ''duration'') \<longrightarrow> field r ''duration'' = JNum 0)
            \<and> (nullish (field ?o ''created_time'') \<longrightarrow> field r ''created'' = JStr [])
            \<and> (nullish (field ?o ''parent_folder'') \<longrightarrow> field r ''folder'' = JUndefined)"
    if u: "\<not> truthy (field ?o ''uri'') \<or> is_text (field ?o ''uri'')"
      and c: "nullish (field ?o ''created_time'') \<or> is_text (field ?o ''created_time'')"
  proof -
    have "extractVideoMinimal ?o =
        Inr (JObj [(''id'', JStr (trailing_segment (text_of (field ?o ''uri'')))),
                (''name'', js_or (field ?o ''name'') (JStr ''Untitled'')),
                (''duration'', js_or (field ?o ''duration'') (JNum 0)),
                (''created'', js_or (if nullish (field ?o ''created_time'') then JUndefined
                     else JStr (takeWhile (\<lambda>c. c \<noteq> CHR ''T'') (text_of (field ?o ''created_time''))))
                   (JStr [])),
                (''folder'', optGet (field ?o ''parent_folder'') ''name'')])"
      using pop_of_uri[OF u] created_of_time[OF c]
      by (simp add: extractVideoMinimal_object js_or_def)
    then show ?thesis
      using nullish_falsy optGet_nullish by (auto simp add: js_or_def)
  qed
  have folder: "\<exists>r. extractFolderMinimal ?o = Inr r
            \<and> (nullish (field ?o ''name'') \<longrightarrow> field r ''name'' = JStr ''Untitled'')
            \<and> (nullish (field ?o ''metadata'')
                 \<or> nullish (optGet (field ?o ''metadata'') ''connections'')
                 \<or> nullish (optGet (optGet (field ?o ''metadata'') ''connections'') ''videos'')
                 \<or> nullish (optGet (optGet (optGet (field ?o ''metadata'') ''connections'')
                               ''videos'') ''total'')
                \<longrightarrow> field r ''video_count'' = JNum 0)"
    if u: "\<not> truthy (field ?o ''uri'') \<or> is_text (field ?o ''uri'')"
  proof -
    have "extractFolderMinimal ?o =
        Inr (JObj [(''id'', JStr (trailing_segment (text_of (field ?o ''uri'')))),
                (''name'', js_or (field ?o ''name'') (JStr ''Untitled'')),
                (''video_count'',
                   js_or (optGet (optGet (optGet (field ?o ''metadata'') ''connections'')
                       ''videos'') ''total'') (JNum 0))])"
      using pop_of_uri[OF u]
      by (simp add: extractFolderMinimal_object js_or_def)
    moreover have "\<not> truthy (optGet (optGet (optGet (field ?o ''metadata'') ''connections'')
                       ''videos'') ''total'')"
      if "nullish (field ?o ''metadata'')
                 \<or> nullish (optGet (field ?o ''metadata'') ''connections'')
                 \<or> nullish (optGet (optGet (field ?o ''metadata'') ''connections'') ''videos'')
                 \<or> nullish (optGet (optGet (optGet (field ?o ''metadata'') ''connections'')
                               ''videos'') ''total'')"
      using that by (auto simp: optGet_nullish nullish_falsy)
    ultimately show ?thesis
      using nullish_falsy by (auto simp add: js_or_def)
  qed
  have dv: "extractVideoMinimal (JObj []) =
        Inr (JObj [(''id'', JStr []), (''name'', JStr ''Untitled''), (''duration'', JNum 0),
                   (''created'', JStr []), (''folder'', JUndefined)])"
    by (simp add: extractVideoMinimal_def propGet_def js_or_def split_pop_text
        trailing_segment_Nil opt_chain_def optGet_def)
  have df: "extractFolderMinimal (JObj []) =
        Inr (JObj [(''id'', JStr []), (''name'', JStr ''Untitled''), (''video_count'', JNum 0)])"
    by (simp add: extractFolderMinimal_def propGet_def js_or_def split_pop_text
        trailing_segment_Nil optGet_def)
  have ser: "serialize gap ind (JObj [(''id'', JStr []), (''name'', JStr ''Untitled''),
                   (''duration'', JNum 0), (''created'', JStr []), (''folder'', JUndefined)])
       = serialize gap ind (JObj [(''id'', JStr []), (''name'', JStr ''Untitled''),
                   (''duration'', JNum 0), (''created'', JStr [])])"
    by simp
  show ?thesis
    using video folder dv df ser by blast
qed

text \<open>A resource with only a \<open>uri\<close> and a metadata block without connections.\<close>

theorem extractors_tolerate_absence_witness:
  "is_text (field (JObj [(''uri'', JStr ''/videos/42''), (''metadata'', JObj [(''connections'', JNull)])]) ''uri'')
   \<and> nullish (field (JObj [(''uri'', JStr ''/videos/42''), (''metadata'', JObj [(''connections'', JNull)])]) ''created_time'')
   \<and> nullish (optGet (field (JObj [(''uri'', JStr ''/videos/42''), (''metadata'', JObj [(''connections'', JNull)])]) ''metadata'') ''connections'')
   \<and> extractVideoMinimal (JObj [(''uri'', JStr ''/videos/42''), (''metadata'', JObj [(''connections'', JNull)])]) =
        Inr (JObj [(''id'', JStr ''42''), (''name'', JStr ''Untitled''), (''duration'', JNum 0),
                   (''created'', JStr []), (''folder'', JUndefined)])
   \<and> extractFolderMinimal (JObj [(''uri'', JStr ''/videos/42''), (''metadata'', JObj [(''connections'', JNull)])]) =
        Inr (JObj [(''id'', JStr ''42''), (''name'', JStr ''Untitled''), (''video_count'', JNum 0)])"
  using extractors_tolerate_absence [of "[(''uri'', JStr ''/videos/42''), (''metadata'', JObj [(''connections'', JNull)])]"]
  by (simp add: extractVideoMinimal_def extractFolderMinimal_def propGet_def js_or_def split_pop_text
        trailing_segment_def opt_chain_def optGet_def)

section \<open>The dispatcher\<close>

text \<open>
  C5.  No call makes the dispatcher throw: a name that is not a tool's yields
  \<open>{error: "Unknown tool: <name>"}\<close> without any request, and an exception thrown while
  a handler runs becomes the result \<open>{error: message}\<close> with the message of the
  exception.
\<close>

theorem dispatcher_catches:
  "(\<forall>e tr'. callTool up name args tr \<noteq> Some (Inl (Thrown e), tr'))
   \<and> (name \<notin> set tool_names \<longrightarrow>
        callTool up name args tr =
          Some (Inr (CallResult [TextContent
                  (JSON_stringify (JObj [(''error'', JStr (''Unknown tool: '' @ name))]))]), tr))
   \<and> (\<forall>e tr'. call_handler up name args tr = Some (Inl (Thrown e), tr') \<longrightarrow>
        callTool up name args tr =
          Some (Inr (CallResult [TextContent
                  (JSON_stringify (JObj [(''error'', JStr (message e))]))]), tr'))"
proof (intro conjI allI impI)
  fix e tr'
  show "callTool up name args tr \<noteq> Some (Inl (Thrown e), tr')"
    by (simp add: callTool_def split: option.splits prod.splits sum.splits fault.splits)
next
  assume "name \<notin> set tool_names"
  then have "call_handler up name args tr =
      Some (Inr (JSON_stringify (JObj [(''error'', JStr (''Unknown tool: '' @ name))])), tr)"
    by (simp add: call_handler_def tool_names_def)
  then show "callTool up name args tr =
          Some (Inr (CallResult [TextContent
                  (JSON_stringify (JObj [(''error'', JStr (''Unknown tool: '' @ name))]))]), tr)"
    by (simp add: callTool_def)
next
  fix e tr'
  assume "call_handler up name args tr = Some (Inl (Thrown e), tr')"
  then show "callTool up name args tr =
          Some (Inr (CallResult [TextContent
                  (JSON_stringify (JObj [(''error'', JStr (message e))]))]), tr')"
    by (simp add: callTool_def)
qed

text \<open>An unknown tool, a handler that throws a TypeError (get_video without
  arguments), and a handler whose request is rejected.\<close>

theorem dispatcher_catches_witness:
  "''frobnicate'' \<notin> set tool_names
   \<and> callTool (\<lambda>tr rq. Inl (RequestError ''socket hang up'')) ''frobnicate'' (JObj []) [] =
        Some (Inr (CallResult [TextContent
                (JSON_stringify (JObj [(''error'', JStr ''Unknown tool: frobnicate'')]))]), [])
   \<and> call_handler (\<lambda>tr rq. Inl (RequestError ''socket hang up'')) ''get_video'' JUndefined [] =
        Some (Inl (Thrown (cannot_read JUndefined ''video_id'')), [])
   \<and> callTool (\<lambda>tr rq. Inl (RequestError ''socket hang up'')) ''get_video'' JUndefined [] =
        Some (Inr (CallResult [TextContent
                (JSON_stringify (JObj [(''error'',
                   JStr (message (cannot_read JUndefined ''video_id'')))]))]), [])
   \<and> call_handler (\<lambda>tr rq. Inl (RequestError ''socket hang up'')) ''get_stats'' JUndefined [] =
        Some (Inl (Thrown (RequestError ''socket hang up'')),
              [\<lparr>endpoint = ''/me/videos?per_page=1&fields=uri'', meth = ''GET'', body = JUndefined\<rparr>])
   \<and> callTool (\<lambda>tr rq. Inl (RequestError ''socket hang up'')) ''get_stats'' JUndefined [] =
        Some (Inr (CallResult [TextContent
                (JSON_stringify (JObj [(''error'', JStr ''socket hang up'')]))]),
              [\<lparr>endpoint = ''/me/videos?per_page=1&fields=uri'', meth = ''GET'', body = JUndefined\<rparr>])"
proof -
  let ?up = "\<lambda>(tr :: request list) (rq :: request). (Inl (RequestError ''socket hang up'') :: js_error + VimeoResponse)"
  have h1: "call_handler ?up ''get_video'' JUndefined [] =
        Some (Inl (Thrown (cannot_read JUndefined ''video_id'')), [])"
    by (simp add: call_handler_def handleGetVideo_def io_bind_def io_lift_def propGet_def)
  have h2: "call_handler ?up ''get_stats'' JUndefined [] =
        Some (Inl (Thrown (RequestError ''socket hang up'')),
              [\<lparr>endpoint = ''/me/videos?per_page=1&fields=uri'', meth = ''GET'', body = JUndefined\<rparr>])"
    by (simp add: call_handler_def handleGetStats_def io_bind_def vimeoRequest_def)
  have n: "''frobnicate'' \<notin> set tool_names" by (simp add: tool_names_def)
  show ?thesis
    using dispatcher_catches[of ?up "''frobnicate''" "JObj []" "[]"]
      dispatcher_catches[of ?up "''get_video''" JUndefined "[]"]
      dispatcher_catches[of ?up "''get_stats''" JUndefined "[]"]
      h1 h2 n
    by simp
qed

section \<open>Computations with requests: basic facts\<close>

lemma silent_lift [simp]: "silent (io_lift r)"
  by (simp add: silent_def io_lift_def)

lemma silent_return [simp]: "silent (io_return x)"
  by (simp add: silent_def io_return_def)

lemma silent_bind [simp]: "silent m \<Longrightarrow> (\<And>x. silent (f x)) \<Longrightarrow> silent (io_bind m f)"
  by (auto simp: silent_def io_bind_def split: prod.splits sum.splits) (metis snd_conv)+

lemma silent_if [simp]: "silent a \<Longrightarrow> silent b \<Longrightarrow> silent (if c then a else b)"
  by simp

lemma io_bind_lift_Inr [simp]: "io_bind (io_lift (Inr x)) f = f x"
  by (rule ext) (simp add: io_bind_def io_lift_def)

lemma io_bind_lift_Inl [simp]: "io_bind (io_lift (Inl e)) f = io_lift (Inl e)"
  by (rule ext) (simp add: io_bind_def io_lift_def)

lemma propGet_object [simp]: "propGet (JObj kvs) k = Inr (field (JObj kvs) k)"
  by (simp add: propGet_def)

lemma request_then_silent:
  "(\<And>res. silent (f res)) \<Longrightarrow>
     snd (io_bind (vimeoRequest up ep m b) f tr) = tr @ [\<lparr>endpoint = ep, meth = m, body = b\<rparr>]"
  by (cases "up tr \<lparr>endpoint = ep, meth = m, body = b\<rparr>")
     (simp_all add: io_bind_def vimeoRequest_def silent_def Let_def)

lemma request_answered:
  "up tr \<lparr>endpoint = ep, meth = m, body = b\<rparr> = Inr res \<Longrightarrow>
     io_bind (vimeoRequest up ep m b) f tr = f res (tr @ [\<lparr>endpoint = ep, meth = m, body = b\<rparr>])"
  by (simp add: io_bind_def vimeoRequest_def)

lemma propGet_present: "\<not> nullish v \<Longrightarrow> propGet v k = Inr (field v k)"
  by (simp add: propGet_def)

section \<open>get_video: the description\<close>

lemma mapM_names:
  "list_all (\<lambda>t. \<not> nullish t) ts \<Longrightarrow>
     mapM (\<lambda>t. propGet t ''name'') ts = Inr (map (\<lambda>t. field t ''name'') ts)"
  by (induction ts) (auto simp: propGet_def)

lemma names_of_tags:
  "tag_list_ok tg \<Longrightarrow>
     js_or (case opt_chain tg (map_array (\<lambda>t. propGet t ''name'')) of Inr x \<Rightarrow> x | Inl e \<Rightarrow> JNull) (JArr [])
       = tag_names tg
     \<and> (\<exists>x. opt_chain tg (map_array (\<lambda>t. propGet t ''name'')) = Inr x)"
  by (cases tg) (auto simp: opt_chain_def map_array_def mapM_names js_or_def)

lemma cut_description:
  "nullish desc \<or> is_text desc \<Longrightarrow>
     opt_chain desc (\<lambda>x. js_substring0 x 500) =
       Inr (if nullish desc then JUndefined else JStr (take 500 (text_of desc)))"
  by (cases desc) (auto simp: opt_chain_def)

lemma handleGetVideo_object:
  assumes "js_toString (field (JObj kvs) ''video_id'') = Inr vs"
    and "up tr (video_request vs) = Inr res"
  shows "handleGetVideo up (JObj kvs) tr =
     ((if status res \<noteq> 200
       then Inr (JSON_stringify
              (JObj [(''error'', JStr ''Video not found''), (''status'', JNum (status res))]))
       else
         bnd (propGet (data res) ''name'') (\<lambda>nm.
         bnd (propGet (data res) ''description'') (\<lambda>desc.
         bnd (opt_chain desc (\<lambda>x. js_substring0 x 500)) (\<lambda>cut.
         bnd (propGet (data res) ''duration'') (\<lambda>dur.
         bnd (propGet (data res) ''created_time'') (\<lambda>ct.
         bnd (opt_chain ct (split_first (CHR ''T''))) (\<lambda>created.
         bnd (propGet (data res) ''parent_folder'') (\<lambda>pf.
         bnd (propGet (data res) ''tags'') (\<lambda>tg.
         bnd (opt_chain tg (map_array (\<lambda>t. propGet t ''name''))) (\<lambda>names.
         bnd (propGet (data res) ''privacy'') (\<lambda>pr.
         bnd (propGet (data res) ''link'') (\<lambda>lk.
         Inr (JSON_stringify2
           (JObj [(''id'', field (JObj kvs) ''video_id''),
                  (''name'', nm),
                  (''description'', js_or cut (JStr [])),
                  (''duration'', dur),
                  (''created'', created),
                  (''folder'', optGet pf ''name''),
                  (''tags'', js_or names (JArr [])),
                  (''privacy'', optGet pr ''view''),
                  (''link'', lk)])))))))))))))),
      tr @ [video_request vs])"
  using assms
  by (simp add: handleGetVideo_def io_defs propGet_def Let_def video_request_def)

text \<open>
  C7.  Let get_video be called with an object whose \<open>video_id\<close> converts to text, and
  let the upstream answer.  On a status other than 200 the result is
  \<open>{error: "Video not found", status}\<close>.  On 200 with an object whose description and
  creation time are absent or text and whose tags are absent or an array of objects, the
  result is the record of the video, and its description is the first 500 characters of
  the upstream description: the empty string when that is absent.
\<close>

theorem get_video_description:
  assumes "js_toString (field (JObj kvs) ''video_id'') = Inr vs"
    and "up tr (video_request vs) = Inr res"
  shows "(status res \<noteq> 200 \<longrightarrow>
           fst (handleGetVideo up (JObj kvs) tr) =
             Inr (JSON_stringify
               (JObj [(''error'', JStr ''Video not found''), (''status'', JNum (status res))])))
       \<and> (status res = 200 \<and> data res = JObj v
            \<and> (nullish (field (JObj v) ''description'') \<or> is_text (field (JObj v) ''description''))
            \<and> (nullish (field (JObj v) ''created_time'') \<or> is_text (field (JObj v) ''created_time''))
            \<and> tag_list_ok (field (JObj v) ''tags'') \<longrightarrow>
           fst (handleGetVideo up (JObj kvs) tr) =
             Inr (JSON_stringify2
               (JObj [(''id'', field (JObj kvs) ''video_id''),
                      (''name'', field (JObj v) ''name''),
                      (''description'', JStr (take 500 (text_of (field (JObj v) ''description'')))),
                      (''duration'', field (JObj v) ''duration''),
                      (''created'',
                         if nullish (field (JObj v) ''created_time'') then JUndefined
                         else JStr (takeWhile (\<lambda>c. c \<noteq> CHR ''T'')
                                (text_of (field (JObj v) ''created_time'')))),
                      (''folder'', optGet (field (JObj v) ''parent_folder'') ''name''),
                      (''tags'', tag_names (field (JObj v) ''tags'')),
                      (''privacy'', optGet (field (JObj v) ''privacy'') ''view''),
                      (''link'', field (JObj v) ''link'')])))"
proof (intro conjI impI)
  note gv = handleGetVideo_object[of kvs vs up tr res, OF assms]
  show "fst (handleGetVideo up (JObj kvs) tr) =
             Inr (JSON_stringify
               (JObj [(''error'', JStr ''Video not found''), (''status'', JNum (status res))]))"
    if "status res \<noteq> 200"
    using that by (simp add: gv)
  show "fst (handleGetVideo up (JObj kvs) tr) =
             Inr (JSON_stringify2
               (JObj [(''id'', field (JObj kvs) ''video_id''),
                      (''name'', field (JObj v) ''name''),
                      (''description'', JStr (take 500 (text_of (field (JObj v) ''description'')))),
                      (''duration'', field (JObj v) ''duration''),
                      (''created'',
                         if nullish (field (JObj v) ''created_time'') then JUndefined
                         else JStr (takeWhile (\<lambda>c. c \<noteq> CHR ''T'')
                                (text_of (field (JObj v) ''created_time'')))),
                      (''folder'', optGet (field (JObj v) ''parent_folder'') ''name''),
                      (''tags'', tag_names (field (JObj v) ''tags'')),
                      (''privacy'', optGet (field (JObj v) ''privacy'') ''view''),
                      (''link'', field (JObj v) ''link'')]))"
    if h: "status res = 200 \<and> data res = JObj v
            \<and> (nullish (field (JObj v) ''description'') \<or> is_text (field (JObj v) ''description''))
            \<and> (nullish (field (JObj v) ''created_time'') \<or> is_text (field (JObj v) ''created_time''))
            \<and> tag_list_ok (field (JObj v) ''tags'')"
  proof -
    let ?d = "field (JObj v) ''description''"
    have d: "opt_chain ?d (\<lambda>x. js_substring0 x 500) =
       Inr (if nullish ?d then JUndefined else JStr (take 500 (text_of ?d)))"
      using h cut_description by blast
    have d': "js_or (if nullish ?d then JUndefined else JStr (take 500 (text_of ?d))) (JStr [])
               = JStr (take 500 (text_of ?d))"
      by (cases ?d) (auto simp: js_or_def)
    have c: "opt_chain (field (JObj v) ''created_time'') (split_first (CHR ''T'')) =
       Inr (if nullish (field (JObj v) ''created_time'') then JUndefined
            else JStr (takeWhile (\<lambda>c. c \<noteq> CHR ''T'') (text_of (field (JObj v) ''created_time''))))"
      using h created_of_time by blast
    obtain x where t: "opt_chain (field (JObj v) ''tags'') (map_array (\<lambda>t. propGet t ''name'')) = Inr x"
      and t': "js_or x (JArr []) = tag_names (field (JObj v) ''tags'')"
      using names_of_tags[of "field (JObj v) ''tags''"] h by auto
    show ?thesis
      using h d d' c t t' by (simp add: gv propGet_def)
  qed
qed

text \<open>A description of 600 characters gives its first 500; an absent one gives the
  empty string; a 404 gives the error.\<close>

theorem get_video_description_witness:
  "fst (handleGetVideo
          (\<lambda>tr rq. Inr \<lparr>status = 200,
                          data = JObj [(''name'', JStr ''Clip''),
                                       (''description'', JStr (replicate 600 (CHR ''a'')))]\<rparr>)
          (JObj [(''video_id'', JStr ''42'')]) []) =
     Inr (JSON_stringify2
       (JObj [(''id'', JStr ''42''),
              (''name'', JStr ''Clip''),
              (''description'', JStr (replicate 500 (CHR ''a''))),
              (''duration'', JUndefined),
              (''created'', JUndefined),
              (''folder'', JUndefined),
              (''tags'', JArr []),
              (''privacy'', JUndefined),
              (''link'', JUndefined)]))
   \<and> fst (handleGetVideo
          (\<lambda>tr rq. Inr \<lparr>status = 200, data = JObj [(''name'', JStr ''Clip'')]\<rparr>)
          (JObj [(''video_id'', JStr ''42'')]) []) =
     Inr (JSON_stringify2
       (JObj [(''id'', JStr ''42''),
              (''name'', JStr ''Clip''),
              (''description'', JStr []),
              (''duration'', JUndefined),
              (''created'', JUndefined),
              (''folder'', JUndefined),
              (''tags'', JArr []),
              (''privacy'', JUndefined),
              (''link'', JUndefined)]))
   \<and> fst (handleGetVideo (\<lambda>tr rq. Inr \<lparr>status = 404, data = JObj []\<rparr>)
          (JObj [(''video_id'', JStr ''42'')]) []) =
     Inr (JSON_stringify (JObj [(''error'', JStr ''Video not found''), (''status'', JNum 404)]))"
  using get_video_description [of "[(''video_id'', JStr ''42'')]" "''42''"
      "\<lambda>tr rq. Inr \<lparr>status = 200,
                          data = JObj [(''name'', JStr ''Clip''),
                                       (''description'', JStr (replicate 600 (CHR ''a'')))]\<rparr>"
      "[]"
      "\<lparr>status = 200, data = JObj [(''name'', JStr ''Clip''),
                                       (''description'', JStr (replicate 600 (CHR ''a'')))]\<rparr>"
      "[(''name'', JStr ''Clip''), (''description'', JStr (replicate 600 (CHR ''a'')))]"]
    get_video_description [of "[(''video_id'', JStr ''42'')]" "''42''"
      "\<lambda>tr rq. Inr \<lparr>status = 200, data = JObj [(''name'', JStr ''Clip'')]\<rparr>"
      "[]"
      "\<lparr>status = 200, data = JObj [(''name'', JStr ''Clip'')]\<rparr>"
      "[(''name'', JStr ''Clip'')]"]
    get_video_description [of "[(''video_id'', JStr ''42'')]" "''42''"
      "\<lambda>tr rq. Inr \<lparr>status = 404, data = JObj []\<rparr>"
      "[]"
      "\<lparr>status = 404, data = JObj []\<rparr>"]
  by (simp add: optGet_def)

section \<open>list_videos: the page size sent upstream\<close>

lemma min_per_page:
  "\<not> truthy pp \<or> is_number pp \<Longrightarrow>
     Math_min (js_or pp (JNum 50)) 100 = Inr (effective_per_page pp)"
  by (cases pp) (auto simp: js_or_def)

text \<open>
  C8, amended.  Let list_videos be called with an object whose \<open>per_page\<close> is absent,
  falsy or a number, and whose page, folder and search text convert to text.  It sends one
  GET whose \<open>per_page\<close> is the caller's number capped at 100 when that number is not 0,
  and 50 when the caller gives none or gives 0.
\<close>

theorem list_videos_per_page:
  assumes "\<not> truthy (field (JObj kvs) ''per_page'') \<or> is_number (field (JObj kvs) ''per_page'')"
    and "js_toString (js_or (field (JObj kvs) ''page'') (JNum 1)) = Inr ps"
    and "if truthy (field (JObj kvs) ''folder_id'')
         then js_toString (field (JObj kvs) ''folder_id'') = Inr f \<and> folder = Some f
         else folder = None"
    and "if truthy (field (JObj kvs) ''search'')
         then encodeURIComponent (field (JObj kvs) ''search'') = Inr q \<and> query = Some q
         else query = None"
  shows "snd (handleListVideos up (JObj kvs) tr) =
           tr @ [\<lparr>endpoint = list_videos_endpoint
                               (effective_per_page (field (JObj kvs) ''per_page'')) ps folder query,
                   meth = ''GET'', body = JUndefined\<rparr>]"
proof -
  note pp = min_per_page[OF assms(1)]
  show ?thesis
  proof (cases "truthy (field (JObj kvs) ''folder_id'')")
    case True
    note fid = True
    show ?thesis
    proof (cases "truthy (field (JObj kvs) ''search'')")
      case True
      show ?thesis
        using assms(2,3,4) fid True pp
        by (simp add: handleListVideos_def Let_def list_videos_endpoint_def request_then_silent)
    next
      case False
      show ?thesis
        using assms(2,3,4) fid False pp
        by (simp add: handleListVideos_def Let_def list_videos_endpoint_def request_then_silent)
    qed
  next
    case False
    note fid = False
    show ?thesis
    proof (cases "truthy (field (JObj kvs) ''search'')")
      case True
      show ?thesis
        using assms(2,3,4) fid True pp
        by (simp add: handleListVideos_def Let_def list_videos_endpoint_def request_then_silent)
    next
      case False
      show ?thesis
        using assms(2,3,4) fid False pp
        by (simp add: handleListVideos_def Let_def list_videos_endpoint_def request_then_silent)
    qed
  qed
qed

text \<open>\<open>per_page: 500\<close> sends \<open>per_page=100\<close>.\<close>

theorem list_videos_per_page_witness:
  "is_number (field (JObj [(''per_page'', JNum 500)]) ''per_page'')
   \<and> snd (handleListVideos (\<lambda>tr rq. Inr \<lparr>status = 200, data = JObj []\<rparr>)
          (JObj [(''per_page'', JNum 500)]) []) =
       [\<lparr>endpoint = ''/me/videos?per_page=100&page=1&fields=uri,name,duration,created_time,parent_folder'',
          meth = ''GET'', body = JUndefined\<rparr>]"
  using list_videos_per_page [of "[(''per_page'', JNum 500)]" "''1''" "[]" None "[]" None
      "\<lambda>tr rq. Inr \<lparr>status = 200, data = JObj []\<rparr>" "[]"]
  by (simp add: js_or_def show_int_def digits.simps list_videos_endpoint_def)

text \<open>C8 as stated fails at \<open>per_page: 0\<close>: the request carries 50, not the
  caller's 0.\<close>

theorem list_videos_zero_counterexample:
  "snd (handleListVideos (\<lambda>tr rq. Inr \<lparr>status = 200, data = JObj []\<rparr>)
          (JObj [(''per_page'', JNum 0)]) []) =
       [\<lparr>endpoint = ''/me/videos?per_page=50&page=1&fields=uri,name,duration,created_time,parent_folder'',
          meth = ''GET'', body = JUndefined\<rparr>]
   \<and> list_videos_endpoint (min 0 100) ''1'' None None =
       ''/me/videos?per_page=0&page=1&fields=uri,name,duration,created_time,parent_folder''"
  by (simp add: handleListVideos_def io_bind_def io_lift_def vimeoRequest_def propGet_def
      js_or_def show_int_def digits.simps list_videos_endpoint_def io_return_def
      opt_chain_def JSON_stringify2_def)

section \<open>get_stats: bytes to gigabytes\<close>

lemma digits_small: "n < 10 \<Longrightarrow> digits n = [''0123456789'' ! n]"
  by (subst digits.simps) simp

lemma digits_step: "10 \<le> n \<Longrightarrow> digits n = digits (n div 10) @ [''0123456789'' ! (n mod 10)]"
  by (subst digits.simps) simp

lemma digits_two:
  assumes "100 \<le> n"
  shows "digits n = digits (n div 100) @ [''0123456789'' ! (n mod 100 div 10), ''0123456789'' ! (n mod 10)]"
proof -
  have a: "digits n = digits (n div 10) @ [''0123456789'' ! (n mod 10)]"
    by (rule digits_step) (use assms in simp)
  have "10 \<le> n div 10" using assms by simp
  then have b: "digits (n div 10) = digits (n div 10 div 10) @ [''0123456789'' ! (n div 10 mod 10)]"
    by (rule digits_step)
  have c: "n div 10 div 10 = n div 100" by (simp add: div_mult2_eq[symmetric])
  have "n mod 100 = 10 * (n div 10 mod 10) + n mod 10"
    using mod_mult2_eq[of n 10 10] by simp
  then have d: "n div 10 mod 10 = n mod 100 div 10"
    by simp
  have "digits n = (digits (n div 100) @ [''0123456789'' ! (n div 10 mod 10)]) @ [''0123456789'' ! (n mod 10)]"
    using b c by (subst a) simp
  then show ?thesis by (simp only: d append_assoc append_Cons append_Nil)
qed


lemma floor_hundredths:
  assumes "0 \<le> u"
  shows "nat \<lfloor>\<bar>of_int u / 1073741824 :: rat\<bar> * 10 ^ 2 + 1 / 2\<rfloor> = hundredths u"
proof -
  have "\<bar>of_int u / 1073741824 :: rat\<bar> * 10 ^ 2 + 1 / 2
          = of_int (200 * u + 1073741824) / of_int 2147483648"
    using assms by (simp add: field_simps)
  then show ?thesis
    by (simp only: floor_divide_of_int_eq hundredths_def)
qed

lemma below_exponential:
  assumes "0 \<le> u" and "u < 1073741824 * 10 ^ 21"
  shows "\<not> 10 ^ 21 \<le> \<bar>of_int u / 1073741824 :: rat\<bar>"
proof -
  have "(of_int u :: rat) < of_int (1073741824 * 10 ^ 21)"
    using assms(2) by (simp only: of_int_less_iff)
  then have "(of_int u :: rat) < 10 ^ 21 * 1073741824" by simp
  then have "(of_int u / 1073741824 :: rat) < 10 ^ 21"
    by (simp add: divide_less_eq)
  moreover have "\<bar>of_int u / 1073741824 :: rat\<bar> = of_int u / 1073741824"
    using assms(1) by simp
  ultimately show ?thesis by simp
qed

lemma toFixed_exponential_range:
  assumes "1073741824 * 10 ^ 21 \<le> u"
  shows "toFixed f (of_int u / 1073741824) = Inl Unmodelled"
proof -
  have "(of_int (1073741824 * 10 ^ 21) :: rat) \<le> of_int u"
    using assms by (simp only: of_int_le_iff)
  then have "(10 ^ 21 * 1073741824 :: rat) \<le> of_int u" by simp
  then have "(10 ^ 21 :: rat) \<le> of_int u / 1073741824"
    by (simp add: le_divide_eq)
  then have "(10 ^ 21 :: rat) \<le> \<bar>of_int u / 1073741824\<bar>" by linarith
  then show ?thesis by (simp add: toFixed_def)
qed

lemma toFixed_gigabytes:
  assumes "0 \<le> u" and "u < 1073741824 * 10 ^ 21"
  shows "toFixed 2 (of_int u / 1073741824) = Inr (gigabytes_2dp u)"
proof -
  let ?h = "hundredths u"
  have sign: "\<not> (of_int u / 1073741824 :: rat) < 0" using assms(1) by simp
  have tf: "toFixed 2 (of_int u / 1073741824) =
      Inr (let m = digits ?h; k = length m;
           z = (if k \<le> 2 then replicate (3 - k) (CHR ''0'') @ m else m)
       in take (length z - 2) z @ ''.'' @ drop (length z - 2) z)"
    using sign floor_hundredths[OF assms(1)] below_exponential[OF assms]
    by (simp add: toFixed_def Let_def)
  consider "?h < 10" | "10 \<le> ?h" "?h < 100" | "100 \<le> ?h" by linarith
  then show ?thesis
  proof cases
    case 1
    then show ?thesis
      by (simp add: tf gigabytes_2dp_def Let_def digits_small numeral_3_eq_3)
  next
    case 2
    then have d: "digits ?h = [''0123456789'' ! (?h div 10), ''0123456789'' ! (?h mod 10)]"
      by (simp add: digits_step digits_small)
    have "?h div 100 = 0" "?h mod 100 = ?h" using 2 by simp_all
    then show ?thesis
      by (simp add: tf gigabytes_2dp_def Let_def d digits_small)
  next
    case 3
    have d: "digits ?h = digits (?h div 100)
               @ [''0123456789'' ! (?h mod 100 div 10), ''0123456789'' ! (?h mod 10)]"
      using 3 by (rule digits_two)
    have ne: "digits (?h div 100) \<noteq> []" by (subst digits.simps) simp
    then have len: "\<not> length (digits ?h) \<le> 2"
      by (cases "digits (?h div 100)") (auto simp: d)
    show ?thesis
      using len by (simp add: tf gigabytes_2dp_def Let_def) (simp add: d)
  qed
qed

lemma hundredths_nearest:
  assumes "0 \<le> u"
  shows "2 * \<bar>100 * u - 1073741824 * int (hundredths u)\<bar> \<le> 1073741824"
proof -
  define q where "q = (200 * u + 1073741824) div 2147483648"
  define r where "r = (200 * u + 1073741824) mod 2147483648"
  have nn: "0 \<le> q" using assms by (simp add: q_def pos_imp_zdiv_nonneg_iff)
  have h: "int (hundredths u) = q" using nn by (simp add: hundredths_def q_def)
  have r: "0 \<le> r" "r < 2147483648" by (simp_all add: r_def)
  have e: "200 * u + 1073741824 = 2147483648 * q + r"
    unfolding q_def r_def by (rule mult_div_mod_eq[symmetric])
  have d: "2 * (100 * u - 1073741824 * q) = r - 1073741824"
    using e by (simp add: algebra_simps)
  have "\<bar>r - 1073741824\<bar> \<le> 1073741824"
    using r by (simp add: abs_le_iff)
  then have "\<bar>2 * (100 * u - 1073741824 * q)\<bar> \<le> 1073741824"
    by (simp only: d)
  then show ?thesis unfolding h by (simp add: abs_mult)
qed

text \<open>
  C9.  Let the upstream answer the three requests of get_stats with objects, the storage
  used and the storage available being absent or numbers of bytes, not negative and below
  \<open>1073741824 * 10^21\<close> (from there on \<open>toFixed\<close> writes exponential text).  The
  result gives each as a text with two decimals: the hundredths of a gigabyte nearest to
  the bytes divided by 1073741824, at most half a hundredth away.
\<close>

theorem get_stats_gigabytes:
  assumes "up tr (stats_requests ! 0) = Inr videoRes"
    and "up (tr @ take 1 stats_requests) (stats_requests ! 1) = Inr folderRes"
    and "up (tr @ take 2 stats_requests) (stats_requests ! 2) = Inr userRes"
    and "\<not> nullish (data videoRes)" and "\<not> nullish (data folderRes)"
    and "\<not> nullish (data userRes)"
    and "js_or (optGet (optGet (field (data userRes) ''upload_quota'') ''space'') ''used'') (JNum 0)
           = JNum used"
    and "js_or (optGet (optGet (field (data userRes) ''upload_quota'') ''space'') ''max'') (JNum 0)
           = JNum mx"
    and "0 \<le> used" and "0 \<le> mx"
    and "used < 1073741824 * 10 ^ 21" and "mx < 1073741824 * 10 ^ 21"
  shows "handleGetStats up tr =
           (Inr (JSON_stringify2
              (JObj [(''total_videos'', js_or (field (data videoRes) ''total'') (JNum 0)),
                     (''total_folders'', js_or (field (data folderRes) ''total'') (JNum 0)),
                     (''storage_used_gb'', JStr (gigabytes_2dp used)),
                     (''storage_max_gb'', JStr (gigabytes_2dp mx))])),
            tr @ stats_requests)
       \<and> 2 * \<bar>100 * used - 1073741824 * int (hundredths used)\<bar> \<le> 1073741824
       \<and> 2 * \<bar>100 * mx - 1073741824 * int (hundredths mx)\<bar> \<le> 1073741824"
proof -
  have r1: "up tr \<lparr>endpoint = ''/me/videos?per_page=1&fields=uri'', meth = ''GET'',
                     body = JUndefined\<rparr> = Inr videoRes"
    using assms(1) by (simp add: stats_requests_def)
  have r2: "up (tr @ [\<lparr>endpoint = ''/me/videos?per_page=1&fields=uri'', meth = ''GET'',
                          body = JUndefined\<rparr>])
               \<lparr>endpoint = ''/me/projects?per_page=1'', meth = ''GET'', body = JUndefined\<rparr>
             = Inr folderRes"
    using assms(2) by (simp add: stats_requests_def)
  have r3: "up (tr @ [\<lparr>endpoint = ''/me/videos?per_page=1&fields=uri'', meth = ''GET'',
                          body = JUndefined\<rparr>,
                  \<lparr>endpoint = ''/me/projects?per_page=1'', meth = ''GET'', body = JUndefined\<rparr>])
               \<lparr>endpoint = ''/me?fields=upload_quota'', meth = ''GET'', body = JUndefined\<rparr>
             = Inr userRes"
    using assms(3) by (simp add: stats_requests_def)
  have "handleGetStats up tr =
           (Inr (JSON_stringify2
              (JObj [(''total_videos'', js_or (field (data videoRes) ''total'') (JNum 0)),
                     (''total_folders'', js_or (field (data folderRes) ''total'') (JNum 0)),
                     (''storage_used_gb'', JStr (gigabytes_2dp used)),
                     (''storage_max_gb'', JStr (gigabytes_2dp mx))])),
            tr @ stats_requests)"
    unfolding handleGetStats_def
    by (simp add: request_answered[of up, OF r1] request_answered[of up, OF r2]
        request_answered[of up, OF r3] propGet_present assms(4-8) Let_def io_return_def
        stats_requests_def toFixed_gigabytes[OF assms(9) assms(11)]
        toFixed_gigabytes[OF assms(10) assms(12)])
  then show ?thesis
    using hundredths_nearest[OF assms(9)] hundredths_nearest[OF assms(10)]
    by simp
qed

text \<open>1073741824 bytes used give \<open>"1.00"\<close>.\<close>

theorem get_stats_gigabytes_witness:
  "handleGetStats
     (\<lambda>tr rq. Inr \<lparr>status = 200,
          data = JObj [(''total'', JNum 7),
                       (''upload_quota'', JObj [(''space'',
                          JObj [(''used'', JNum 1073741824), (''max'', JNum 5368709120)])])]\<rparr>) []
   = (Inr (JSON_stringify2
        (JObj [(''total_videos'', JNum 7),
               (''total_folders'', JNum 7),
               (''storage_used_gb'', JStr ''1.00''),
               (''storage_max_gb'', JStr ''5.00'')])),
      stats_requests)"
proof -
  let ?res = "\<lparr>status = 200,
          data = JObj [(''total'', JNum 7),
                       (''upload_quota'', JObj [(''space'',
                          JObj [(''used'', JNum 1073741824), (''max'', JNum 5368709120)])])]\<rparr>"
  have g1: "gigabytes_2dp 1073741824 = ''1.00''"
    by (simp add: gigabytes_2dp_def hundredths_def digits_small)
  have g5: "gigabytes_2dp 5368709120 = ''5.00''"
    by (simp add: gigabytes_2dp_def hundredths_def digits_small)
  show ?thesis
    using get_stats_gigabytes [of "\<lambda>tr rq. Inr ?res" "[]" ?res ?res ?res 1073741824 5368709120]
    by (simp add: js_or_def optGet_def g1 g5)
qed

end
